theory Spec2Isabelle
  imports Main
begin

section \<open>The OAuth redirect-callback page\<close>

text \<open>
  A shallow embedding of \<^verbatim>\<open>src/pages/AuthCallbackPage.tsx\<close>: the effect \<^verbatim>\<open>handleAuth\<close> that
  the page runs when it mounts, and the four platform handlers it dispatches to.

  The page does nothing but talk to its surroundings, so the model makes the surroundings
  explicit. Everything the code reads from outside (the window, the clock, the build-time
  configuration, the answers of \<^verbatim>\<open>fetch\<close>, of the storage client and of the social-media
  service) is a field of the record \<open>env\<close>; everything the code does to the outside is an
  \<open>event\<close>, and a run of the code is the list of its events in program order.
\<close>

subsection \<open>JavaScript values\<close>

text \<open>
  Strings are byte strings (UTF-8). \<open>None\<close> stands for \<^verbatim>\<open>null\<close> where the code reads a query
  parameter and for \<^verbatim>\<open>undefined\<close> where it reads a configuration variable or a property of
  a JSON body. A call into the surroundings either returns or throws; what is thrown is an
  \<^verbatim>\<open>Error\<close>, known by its \<^verbatim>\<open>message\<close>.
\<close>

datatype 'a outcome = Returned 'a | Threw string

text \<open>\<^verbatim>\<open>if (x)\<close> and \<^verbatim>\<open>!x\<close> on a \<^verbatim>\<open>string | null\<close>: \<^verbatim>\<open>null\<close> and the empty string are falsy.\<close>

fun truthy :: "string option \<Rightarrow> bool" where
  "truthy None = False"
| "truthy (Some s) = (s \<noteq> [])"

text \<open>\<^verbatim>\<open>a || b\<close> on strings.\<close>

definition or_else :: "string option \<Rightarrow> string \<Rightarrow> string" where
  "or_else a b = (case a of None \<Rightarrow> b | Some s \<Rightarrow> if s = [] then b else s)"

text \<open>
  The conversion to a string that \<^verbatim>\<open>new URLSearchParams({...})\<close> applies to the values of
  its record: a configuration variable that is not set becomes the text \<^verbatim>\<open>undefined\<close>.
\<close>

definition USVString :: "string option \<Rightarrow> string" where
  "USVString v = (case v of None \<Rightarrow> ''undefined'' | Some s \<Rightarrow> s)"

subsection \<open>URLSearchParams\<close>

text \<open>
  A \<^verbatim>\<open>URLSearchParams\<close> is its list of name-value pairs; \<^verbatim>\<open>get\<close> returns the value of the
  first pair with the name, or \<^verbatim>\<open>null\<close>.
\<close>

type_synonym URLSearchParams = "(string \<times> string) list"

definition get :: "URLSearchParams \<Rightarrow> string \<Rightarrow> string option" where
  "get searchParams name = map_of searchParams name"

text \<open>
  \<^verbatim>\<open>toString()\<close> is the \<^verbatim>\<open>application/x-www-form-urlencoded\<close> serializer: a space becomes
  \<^verbatim>\<open>+\<close>, ASCII letters and digits and \<^verbatim>\<open>* - . _\<close> stay, every other byte is percent-encoded.
\<close>

definition unreserved :: "char \<Rightarrow> bool" where
  "unreserved c =
     (c \<in> set ''ABCDEFGHIJKLMNOPQRSTUVWXYZabcdefghijklmnopqrstuvwxyz0123456789*-._'')"

definition hex :: "nat \<Rightarrow> char" where
  "hex n = ''0123456789ABCDEF'' ! (n mod 16)"

definition percent_encode :: "char \<Rightarrow> string" where
  "percent_encode c =
     (if c = CHR '' '' then ''+''
      else if unreserved c then [c]
      else [CHR ''%'', hex (of_char c div 16), hex (of_char c)])"

definition urlencode :: "string \<Rightarrow> string" where
  "urlencode s = concat (map percent_encode s)"

fun toString :: "URLSearchParams \<Rightarrow> string" where
  "toString [] = []"
| "toString [(k, v)] = urlencode k @ ''='' @ urlencode v"
| "toString ((k, v) # rest) = urlencode k @ ''='' @ urlencode v @ ''&'' @ toString rest"

subsection \<open>Date\<close>

text \<open>
  A time value is a number of milliseconds since the epoch, or \<^verbatim>\<open>NaN\<close> (\<open>None\<close>). The numbers
  of this program (the clock, \<^verbatim>\<open>expires_in\<close>) are integers, and on integers the arithmetic of
  doubles is exact wherever the resulting date is valid.
  \<^verbatim>\<open>new Date(v)\<close> keeps a time value of magnitude at most 8.64e15 and turns every other into
  \<^verbatim>\<open>NaN\<close>; \<^verbatim>\<open>toISOString()\<close> throws a \<^verbatim>\<open>RangeError\<close> on \<^verbatim>\<open>NaN\<close> and otherwise prints the UTC
  date as \<^verbatim>\<open>YYYY-MM-DDTHH:mm:ss.sssZ\<close>, with a sign and six digits for a year outside 0..9999.
\<close>

definition new_Date :: "int option \<Rightarrow> int option" where
  "new_Date v =
     (case v of None \<Rightarrow> None
      | Some t \<Rightarrow> if \<bar>t\<bar> \<le> 8640000000000000 then Some t else None)"

definition digit :: "int \<Rightarrow> char" where
  "digit n = ''0123456789'' ! nat (n mod 10)"

definition pad2 :: "int \<Rightarrow> string" where
  "pad2 n = [digit (n div 10), digit n]"

definition pad3 :: "int \<Rightarrow> string" where
  "pad3 n = digit (n div 100) # pad2 n"

definition pad4 :: "int \<Rightarrow> string" where
  "pad4 n = digit (n div 1000) # pad3 n"

definition pad6 :: "int \<Rightarrow> string" where
  "pad6 n = digit (n div 100000) # digit (n div 10000) # pad4 n"

text \<open>The proleptic Gregorian date (year, month, day) of a day number, day 0 being 1970-01-01.\<close>

definition civil_from_days :: "int \<Rightarrow> int \<times> int \<times> int" where
  "civil_from_days days =
     (let z = days + 719468;
          era = z div 146097;
          doe = z mod 146097;
          yoe = (doe - doe div 1460 + doe div 36524 - doe div 146096) div 365;
          doy = doe - (365 * yoe + yoe div 4 - yoe div 100);
          mp = (5 * doy + 2) div 153;
          d = doy - (153 * mp + 2) div 5 + 1;
          m = (if mp < 10 then mp + 3 else mp - 9);
          y = yoe + era * 400
      in (if m \<le> 2 then y + 1 else y, m, d))"

definition iso_year :: "int \<Rightarrow> string" where
  "iso_year y =
     (if 0 \<le> y \<and> y \<le> 9999 then pad4 y
      else if y < 0 then CHR ''-'' # pad6 (- y)
      else CHR ''+'' # pad6 y)"

definition iso_string :: "int \<Rightarrow> string" where
  "iso_string t =
     (let ms = t mod 86400000
      in case civil_from_days (t div 86400000) of
           (y, m, d) \<Rightarrow>
             iso_year y @ ''-'' @ pad2 m @ ''-'' @ pad2 d @ ''T''
             @ pad2 (ms div 3600000) @ '':'' @ pad2 (ms div 60000 mod 60) @ '':''
             @ pad2 (ms div 1000 mod 60) @ ''.'' @ pad3 (ms mod 1000) @ ''Z'')"

definition toISOString :: "string \<Rightarrow> int option \<Rightarrow> string outcome" where
  "toISOString range_error date =
     (case date of None \<Rightarrow> Threw range_error | Some t \<Rightarrow> Returned (iso_string t))"

subsection \<open>The surroundings\<close>

text \<open>
  The JSON body of a token response. A body that parses is \<^verbatim>\<open>null\<close> or a value whose
  properties of interest are strings (\<^verbatim>\<open>expires_in\<close>: an integer) where they are present;
  a value without properties (a number, a string) reads as an object with none present.
\<close>

record tokens =
  error_description :: "string option"
  access_token :: "string option"
  refresh_token :: "string option"
  expires_in :: "int option"

datatype json_value = JNull | JObject tokens

datatype request_body = Text string | Params URLSearchParams

record request =
  url :: string
  http_method :: string
  headers :: "(string \<times> string) list"
  body :: request_body

record response =
  ok :: bool
  json :: "json_value outcome"

text \<open>The row handed to \<^verbatim>\<open>supabase.from('social_media_accounts').upsert\<close>.\<close>

record social_media_account =
  platform :: string
  access_token :: "string option"
  refresh_token :: "string option"
  expires_at :: string
  user_id :: "string option"

text \<open>
  \<open>opener\<close>: \<^verbatim>\<open>window.opener\<close> is set (taken as fixed during a run);
  \<open>origin\<close>: \<^verbatim>\<open>window.location.origin\<close>;
  \<open>Date_now\<close>: what \<^verbatim>\<open>Date.now()\<close> returns where the code calls it;
  \<open>VITE_...\<close>: \<^verbatim>\<open>import.meta.env\<close>;
  \<open>fetch\<close>, \<open>getUser\<close>, \<open>upsert\<close>, \<open>connectAccount\<close>: what the call answers, for each argument.
  \<open>getUser\<close> returns \<^verbatim>\<open>data.user?.id\<close>; \<open>upsert\<close> returns the \<^verbatim>\<open>error\<close> of its result, if any.
  \<open>RangeError_message\<close> and \<open>TypeError_message\<close> are the engine's messages for an invalid
  date and for reading the named property of \<^verbatim>\<open>null\<close>.
\<close>

record env =
  opener :: bool
  origin :: string
  Date_now :: int
  VITE_TWITTER_CLIENT_ID :: "string option"
  VITE_LINKEDIN_CLIENT_ID :: "string option"
  VITE_LINKEDIN_CLIENT_SECRET :: "string option"
  VITE_FACEBOOK_APP_ID :: "string option"
  VITE_FACEBOOK_CLIENT_SECRET :: "string option"
  VITE_INSTAGRAM_CLIENT_ID :: "string option"
  VITE_INSTAGRAM_CLIENT_SECRET :: "string option"
  fetch :: "request \<Rightarrow> response outcome"
  getUser :: "string option outcome"
  upsert :: "string \<Rightarrow> social_media_account \<Rightarrow> string option outcome"
  connectAccount :: "string \<Rightarrow> unit outcome"
  RangeError_message :: string
  TypeError_message :: "string \<Rightarrow> string"

subsection \<open>Events\<close>

text \<open>
  \<open>ConsoleError\<close> is \<^verbatim>\<open>console.error(label, value)\<close>; \<open>SetStatus\<close> and \<open>SetError\<close> are the two
  state setters of the component; \<open>PostMessage m o\<close> is \<^verbatim>\<open>window.opener.postMessage(m, o)\<close>;
  \<open>SetTimeout es ms\<close> is \<^verbatim>\<open>setTimeout(callback, ms)\<close>, with the events the callback makes when
  the timer fires.
\<close>

datatype logged = LogError string | LogJson json_value

datatype message =
    SOCIAL_AUTH_SUCCESS string
  | SOCIAL_AUTH_ERROR string

datatype event =
    SetStatus string
  | SetError string
  | ConsoleError string logged
  | is_Fetch: Fetch request
  | is_GetUser: GetUser
  | is_Upsert: Upsert string social_media_account
  | is_ConnectAccount: ConnectAccount string
  | is_PostMessage: PostMessage message string
  | is_WindowClose: WindowClose
  | is_Navigate: Navigate string
  | is_SetTimeout: SetTimeout "event list" nat

text \<open>
  An asynchronous computation: the events it has made, and how it ended. \<open>andThen\<close> is
  sequencing (\<^verbatim>\<open>await\<close> included): an exception skips what follows. \<open>try_catch\<close> is
  \<^verbatim>\<open>try { ... } catch (error) { ... }\<close>, the handler receiving \<^verbatim>\<open>error.message\<close>.
\<close>

type_synonym 'a comp = "event list \<times> 'a outcome"

definition ret :: "'a \<Rightarrow> 'a comp" where
  "ret a = ([], Returned a)"

definition throw :: "string \<Rightarrow> 'a comp" where
  "throw m = ([], Threw m)"

definition emit :: "event \<Rightarrow> unit comp" where
  "emit e = ([e], Returned ())"

definition await :: "'a outcome \<Rightarrow> 'a comp" where
  "await r = ([], r)"

definition andThen :: "'a comp \<Rightarrow> ('a \<Rightarrow> 'b comp) \<Rightarrow> 'b comp" where
  "andThen m f =
     (case m of
        (t, Threw e) \<Rightarrow> (t, Threw e)
      | (t, Returned a) \<Rightarrow> (case f a of (t', r) \<Rightarrow> (t @ t', r)))"

definition try_catch :: "'a comp \<Rightarrow> (string \<Rightarrow> 'a comp) \<Rightarrow> 'a comp" where
  "try_catch m h =
     (case m of
        (t, Returned a) \<Rightarrow> (t, Returned a)
      | (t, Threw e) \<Rightarrow> (case h e of (t', r) \<Rightarrow> (t @ t', r)))"

text \<open>Reading a property of a parsed body: a \<^verbatim>\<open>TypeError\<close> on \<^verbatim>\<open>null\<close>.\<close>

definition property :: "env \<Rightarrow> string \<Rightarrow> (tokens \<Rightarrow> 'a) \<Rightarrow> json_value \<Rightarrow> 'a comp" where
  "property env name field v =
     (case v of JNull \<Rightarrow> throw (TypeError_message env name) | JObject b \<Rightarrow> ret (field b))"

subsection \<open>The platform handlers\<close>

text \<open>
  Each handler builds its request, calls \<^verbatim>\<open>fetch\<close> (the event \<open>Fetch\<close>) and goes on with what
  the surroundings answer. What \<^verbatim>\<open>fetch\<close> does with a request is theirs to say: a browser
  rejects a \<^verbatim>\<open>GET\<close> request that has a body, as the facebook handler's has, without sending
  it, and that answer is a \<open>Threw\<close>.
\<close>

definition twitter_params :: "env \<Rightarrow> string \<Rightarrow> URLSearchParams" where
  "twitter_params env code =
     [(''code'', code),
      (''grant_type'', ''authorization_code''),
      (''redirect_uri'', origin env @ ''/auth/callback?platform=twitter''),
      (''code_verifier'', ''challenge''),
      (''client_id'', USVString (VITE_TWITTER_CLIENT_ID env))]"

definition twitter_request :: "env \<Rightarrow> string \<Rightarrow> request" where
  "twitter_request env code =
     \<lparr>url = ''https://api.socialsync.fun/twitter/token'',
      http_method = ''POST'',
      headers = [(''Content-Type'', ''application/x-www-form-urlencoded'')],
      body = Text (toString (twitter_params env code))\<rparr>"

definition handleTwitterAuth :: "env \<Rightarrow> string \<Rightarrow> unit comp" where
  "handleTwitterAuth env code =
     try_catch
       (andThen (emit (Fetch (twitter_request env code))) (\<lambda>_.
        andThen (await (fetch env (twitter_request env code))) (\<lambda>tokenResponse.
        andThen
          (if \<not> ok tokenResponse then
             andThen (await (json tokenResponse)) (\<lambda>errorData.
             andThen (emit (ConsoleError ''Twitter token error:'' (LogJson errorData))) (\<lambda>_.
             andThen (property env ''error_description'' error_description errorData) (\<lambda>d.
             throw (or_else d ''Failed to get Twitter access token''))))
           else ret ()) (\<lambda>_.
        andThen (await (json tokenResponse)) (\<lambda>tokens.
        andThen (property env ''access_token'' tokens.access_token tokens) (\<lambda>access.
        andThen (property env ''refresh_token'' tokens.refresh_token tokens) (\<lambda>refresh.
        andThen (property env ''expires_in'' expires_in tokens) (\<lambda>expires.
        andThen (await (toISOString (RangeError_message env)
                   (new_Date (map_option (\<lambda>n. Date_now env + n * 1000) expires)))) (\<lambda>expires_at.
        andThen (emit GetUser) (\<lambda>_.
        andThen (await (getUser env)) (\<lambda>user.
        andThen (emit (Upsert ''social_media_accounts''
                   \<lparr>platform = ''twitter'', access_token = access, refresh_token = refresh,
                    expires_at = expires_at, user_id = user\<rparr>)) (\<lambda>_.
        andThen (await (upsert env ''social_media_accounts''
                   \<lparr>platform = ''twitter'', access_token = access, refresh_token = refresh,
                    expires_at = expires_at, user_id = user\<rparr>)) (\<lambda>storageError.
        andThen
          (if storageError \<noteq> None then throw ''Failed to store Twitter credentials''
           else ret ()) (\<lambda>_.
        andThen (emit (ConnectAccount ''twitter'')) (\<lambda>_.
        await (connectAccount env ''twitter''))))))))))))))))
       (\<lambda>error.
        andThen (emit (ConsoleError ''Twitter auth error:'' (LogError error))) (\<lambda>_.
        throw (or_else (Some error) ''Failed to authenticate with Twitter'')))"

definition linkedin_params :: "env \<Rightarrow> string \<Rightarrow> URLSearchParams" where
  "linkedin_params env code =
     [(''grant_type'', ''authorization_code''),
      (''code'', code),
      (''client_id'', USVString (VITE_LINKEDIN_CLIENT_ID env)),
      (''client_secret'', USVString (VITE_LINKEDIN_CLIENT_SECRET env)),
      (''redirect_uri'', origin env @ ''/auth/callback?platform=linkedin'')]"

definition linkedin_request :: "env \<Rightarrow> string \<Rightarrow> request" where
  "linkedin_request env code =
     \<lparr>url = ''https://www.linkedin.com/oauth/v2/accessToken'',
      http_method = ''POST'',
      headers = [(''Content-Type'', ''application/x-www-form-urlencoded'')],
      body = Params (linkedin_params env code)\<rparr>"

definition handleLinkedInAuth :: "env \<Rightarrow> string \<Rightarrow> unit comp" where
  "handleLinkedInAuth env code =
     andThen (emit (Fetch (linkedin_request env code))) (\<lambda>_.
     andThen (await (fetch env (linkedin_request env code))) (\<lambda>tokenResponse.
     andThen
       (if \<not> ok tokenResponse then throw ''Failed to get LinkedIn access token''
        else ret ()) (\<lambda>_.
     andThen (await (json tokenResponse)) (\<lambda>tokens.
     andThen (emit (ConnectAccount ''linkedin'')) (\<lambda>_.
     await (connectAccount env ''linkedin''))))))"

definition facebook_params :: "env \<Rightarrow> string \<Rightarrow> URLSearchParams" where
  "facebook_params env code =
     [(''client_id'', USVString (VITE_FACEBOOK_APP_ID env)),
      (''redirect_uri'', origin env @ ''/auth/callback?platform=facebook''),
      (''client_secret'', USVString (VITE_FACEBOOK_CLIENT_SECRET env)),
      (''code'', code)]"

definition facebook_request :: "env \<Rightarrow> string \<Rightarrow> request" where
  "facebook_request env code =
     \<lparr>url = ''https://graph.facebook.com/v18.0/oauth/access_token'',
      http_method = ''GET'',
      headers = [(''Content-Type'', ''application/x-www-form-urlencoded'')],
      body = Params (facebook_params env code)\<rparr>"

definition handleFacebookAuth :: "env \<Rightarrow> string \<Rightarrow> unit comp" where
  "handleFacebookAuth env code =
     andThen (emit (Fetch (facebook_request env code))) (\<lambda>_.
     andThen (await (fetch env (facebook_request env code))) (\<lambda>tokenResponse.
     andThen
       (if \<not> ok tokenResponse then throw ''Failed to get Facebook access token''
        else ret ()) (\<lambda>_.
     andThen (await (json tokenResponse)) (\<lambda>tokens.
     andThen (emit (ConnectAccount ''facebook'')) (\<lambda>_.
     await (connectAccount env ''facebook''))))))"

definition instagram_params :: "env \<Rightarrow> string \<Rightarrow> URLSearchParams" where
  "instagram_params env code =
     [(''client_id'', USVString (VITE_INSTAGRAM_CLIENT_ID env)),
      (''client_secret'', USVString (VITE_INSTAGRAM_CLIENT_SECRET env)),
      (''grant_type'', ''authorization_code''),
      (''redirect_uri'', origin env @ ''/auth/callback?platform=instagram''),
      (''code'', code)]"

definition instagram_request :: "env \<Rightarrow> string \<Rightarrow> request" where
  "instagram_request env code =
     \<lparr>url = ''https://api.instagram.com/oauth/access_token'',
      http_method = ''POST'',
      headers = [(''Content-Type'', ''application/x-www-form-urlencoded'')],
      body = Params (instagram_params env code)\<rparr>"

definition handleInstagramAuth :: "env \<Rightarrow> string \<Rightarrow> unit comp" where
  "handleInstagramAuth env code =
     andThen (emit (Fetch (instagram_request env code))) (\<lambda>_.
     andThen (await (fetch env (instagram_request env code))) (\<lambda>tokenResponse.
     andThen
       (if \<not> ok tokenResponse then throw ''Failed to get Instagram access token''
        else ret ()) (\<lambda>_.
     andThen (await (json tokenResponse)) (\<lambda>tokens.
     andThen (emit (ConnectAccount ''instagram'')) (\<lambda>_.
     await (connectAccount env ''instagram''))))))"

subsection \<open>The callback flow\<close>

text \<open>
  \<open>handleAuth_try\<close> is the body of the \<^verbatim>\<open>try\<close> block of \<^verbatim>\<open>handleAuth\<close>, \<open>handleAuth_catch\<close> its
  \<^verbatim>\<open>catch\<close> block, and \<open>handleAuth\<close> the events of the whole effect; \<open>switch_platform\<close> is
  the \<^verbatim>\<open>switch\<close> statement. The query parameter \<^verbatim>\<open>state\<close> is read like the other three.
\<close>

definition switch_platform :: "env \<Rightarrow> string \<Rightarrow> string \<Rightarrow> unit comp" where
  "switch_platform env p code =
     (if p = ''twitter'' then handleTwitterAuth env code
      else if p = ''linkedin'' then handleLinkedInAuth env code
      else if p = ''facebook'' then handleFacebookAuth env code
      else if p = ''instagram'' then handleInstagramAuth env code
      else throw ''Unsupported platform'')"

definition handleAuth_try :: "env \<Rightarrow> URLSearchParams \<Rightarrow> unit comp" where
  "handleAuth_try env searchParams =
     (let platform = get searchParams ''platform'';
          code = get searchParams ''code'';
          error = get searchParams ''error'';
          state = get searchParams ''state''
      in if truthy error then
           (case error of
              Some e \<Rightarrow> throw (''Authentication failed: '' @ e)
            | None \<Rightarrow> throw ''Authentication failed: null'')
         else if \<not> truthy platform \<or> \<not> truthy code then throw ''Missing required parameters''
         else
           (case (platform, code) of
              (Some p, Some c) \<Rightarrow>
                andThen (emit (SetStatus (''Connecting '' @ p @ '' account...''))) (\<lambda>_.
                andThen (switch_platform env p c) (\<lambda>_.
                andThen (emit (SetStatus ''Successfully connected!'')) (\<lambda>_.
                if opener env then
                  andThen (emit (PostMessage (SOCIAL_AUTH_SUCCESS p) (origin env))) (\<lambda>_.
                  emit WindowClose)
                else emit (Navigate ''/''))))
            | _ \<Rightarrow> throw ''Missing required parameters''))"

definition handleAuth_catch :: "env \<Rightarrow> string \<Rightarrow> unit comp" where
  "handleAuth_catch env error =
     andThen (emit (ConsoleError ''Auth callback error:'' (LogError error))) (\<lambda>_.
     andThen (emit (SetError error)) (\<lambda>_.
     andThen (emit (SetStatus ''Authentication failed'')) (\<lambda>_.
     emit (SetTimeout
       (fst (if opener env then
               andThen (emit (PostMessage (SOCIAL_AUTH_ERROR error) (origin env))) (\<lambda>_.
               emit WindowClose)
             else emit (Navigate ''/'')))
       3000))))"

definition handleAuth :: "env \<Rightarrow> URLSearchParams \<Rightarrow> event list" where
  "handleAuth env searchParams =
     fst (try_catch (handleAuth_try env searchParams) (handleAuth_catch env))"

subsection \<open>Observing a run\<close>

text \<open>
  The events of a run with those of its timer callbacks, each callback's events right after
  the \<open>SetTimeout\<close> that schedules it.
\<close>

primrec events :: "event \<Rightarrow> event list" where
  "events (SetStatus s) = [SetStatus s]"
| "events (SetError s) = [SetError s]"
| "events (ConsoleError l v) = [ConsoleError l v]"
| "events (Fetch r) = [Fetch r]"
| "events GetUser = [GetUser]"
| "events (Upsert t r) = [Upsert t r]"
| "events (ConnectAccount p) = [ConnectAccount p]"
| "events (PostMessage m targetOrigin) = [PostMessage m targetOrigin]"
| "events WindowClose = [WindowClose]"
| "events (Navigate to) = [Navigate to]"
| "events (SetTimeout es ms) = SetTimeout es ms # concat (map events es)"

definition flatten :: "event list \<Rightarrow> event list" where
  "flatten t = concat (map events t)"

text \<open>
  The calls that leave the page (the token endpoint, the storage client, the social-media
  service), and the steps that hand the outcome to the opener or to the router.
\<close>

definition network_call :: "event \<Rightarrow> bool" where
  "network_call e = (is_Fetch e \<or> is_GetUser e \<or> is_Upsert e \<or> is_ConnectAccount e)"

definition propagation :: "event \<Rightarrow> bool" where
  "propagation e = (is_PostMessage e \<or> is_WindowClose e \<or> is_Navigate e)"

text \<open>The request each supported platform's handler sends, and the parameters in its body.\<close>

definition token_request :: "env \<Rightarrow> string \<Rightarrow> string \<Rightarrow> request" where
  "token_request env p code =
     (if p = ''twitter'' then twitter_request env code
      else if p = ''linkedin'' then linkedin_request env code
      else if p = ''facebook'' then facebook_request env code
      else instagram_request env code)"

definition token_params :: "env \<Rightarrow> string \<Rightarrow> string \<Rightarrow> URLSearchParams" where
  "token_params env p code =
     (if p = ''twitter'' then twitter_params env code
      else if p = ''linkedin'' then linkedin_params env code
      else if p = ''facebook'' then facebook_params env code
      else instagram_params env code)"

text \<open>
  The build-time client credentials each handler reads, with the name of the body field
  that carries each.
\<close>

definition credentials :: "env \<Rightarrow> string \<Rightarrow> (string \<times> string option) list" where
  "credentials env p =
     (if p = ''twitter'' then [(''client_id'', VITE_TWITTER_CLIENT_ID env)]
      else if p = ''linkedin'' then
        [(''client_id'', VITE_LINKEDIN_CLIENT_ID env),
         (''client_secret'', VITE_LINKEDIN_CLIENT_SECRET env)]
      else if p = ''facebook'' then
        [(''client_id'', VITE_FACEBOOK_APP_ID env),
         (''client_secret'', VITE_FACEBOOK_CLIENT_SECRET env)]
      else
        [(''client_id'', VITE_INSTAGRAM_CLIENT_ID env),
         (''client_secret'', VITE_INSTAGRAM_CLIENT_SECRET env)])"

text \<open>
  The exchange succeeds: the token endpoint answers the request with a success status and
  a body that parses.
\<close>

definition exchange_succeeds :: "env \<Rightarrow> request \<Rightarrow> bool" where
  "exchange_succeeds env req =
     (case fetch env req of
        Threw _ \<Rightarrow> False
      | Returned r \<Rightarrow> ok r \<and> (case json r of Threw _ \<Rightarrow> False | Returned _ \<Rightarrow> True))"

text \<open>The credentials were persisted: the run made an upsert that reported no error.\<close>

definition persisted :: "env \<Rightarrow> event list \<Rightarrow> bool" where
  "persisted env t =
     list_ex (\<lambda>e. case e of Upsert table row \<Rightarrow> upsert env table row = Returned None | _ \<Rightarrow> False) t"

text \<open>
  The events of the \<^verbatim>\<open>catch\<close> block of \<^verbatim>\<open>handleAuth\<close> for an error with message \<open>m\<close>, and the
  events that end its \<^verbatim>\<open>try\<close> block once the handler of platform \<open>p\<close> has returned.
\<close>

definition failure_events :: "env \<Rightarrow> string \<Rightarrow> event list" where
  "failure_events env m =
     [ConsoleError ''Auth callback error:'' (LogError m),
      SetError m,
      SetStatus ''Authentication failed'',
      SetTimeout
        (if opener env then [PostMessage (SOCIAL_AUTH_ERROR m) (origin env), WindowClose]
         else [Navigate ''/''])
        3000]"

definition success_events :: "env \<Rightarrow> string \<Rightarrow> event list" where
  "success_events env p =
     SetStatus ''Successfully connected!''
     # (if opener env then [PostMessage (SOCIAL_AUTH_SUCCESS p) (origin env), WindowClose]
        else [Navigate ''/''])"

text \<open>
  The row the twitter handler builds from a parsed body \<open>b\<close>, and what its \<^verbatim>\<open>catch\<close> block
  adds to the events \<open>t\<close> made before an error with message \<open>e\<close>.
\<close>

definition twitter_row :: "tokens \<Rightarrow> string \<Rightarrow> string option \<Rightarrow> social_media_account" where
  "twitter_row b expires user =
     \<lparr>platform = ''twitter'', access_token = tokens.access_token b,
      refresh_token = tokens.refresh_token b, expires_at = expires, user_id = user\<rparr>"

definition twitter_fail :: "event list \<Rightarrow> string \<Rightarrow> unit comp" where
  "twitter_fail t e =
     (t @ [ConsoleError ''Twitter auth error:'' (LogError e)],
      Threw (or_else (Some e) ''Failed to authenticate with Twitter''))"

text \<open>The events a platform handler can make.\<close>

definition handler_event :: "event \<Rightarrow> bool" where
  "handler_event e =
     (case e of
        Fetch _ \<Rightarrow> True | GetUser \<Rightarrow> True | Upsert _ _ \<Rightarrow> True
      | ConnectAccount _ \<Rightarrow> True | ConsoleError _ _ \<Rightarrow> True | _ \<Rightarrow> False)"

text \<open>An event that neither hands on the outcome nor sets a timer.\<close>

definition quiet :: "event \<Rightarrow> bool" where
  "quiet e = (\<not> propagation e \<and> \<not> is_SetTimeout e)"

subsection \<open>Example surroundings\<close>

text \<open>
  A popup on \<^verbatim>\<open>https://app.example\<close> whose clock reads 2023-11-14T22:13:20Z, with every
  credential configured and the user \<^verbatim>\<open>u1\<close> signed in. The token endpoints answer with a
  token that expires in an hour; as in a browser, \<^verbatim>\<open>fetch\<close> rejects a \<^verbatim>\<open>GET\<close> request that has
  a body. The storage client and the social-media service report no error.
\<close>

definition token_response :: response where
  "token_response =
     \<lparr>ok = True,
      json = Returned (JObject
        \<lparr>error_description = None, access_token = Some ''at'', refresh_token = Some ''rt'',
         expires_in = Some 3600\<rparr>)\<rparr>"

definition env_example :: env where
  "env_example =
     \<lparr>opener = True,
      origin = ''https://app.example'',
      Date_now = 1700000000000,
      VITE_TWITTER_CLIENT_ID = Some ''tw-id'',
      VITE_LINKEDIN_CLIENT_ID = Some ''li-id'',
      VITE_LINKEDIN_CLIENT_SECRET = Some ''li-secret'',
      VITE_FACEBOOK_APP_ID = Some ''fb-id'',
      VITE_FACEBOOK_CLIENT_SECRET = Some ''fb-secret'',
      VITE_INSTAGRAM_CLIENT_ID = Some ''ig-id'',
      VITE_INSTAGRAM_CLIENT_SECRET = Some ''ig-secret'',
      fetch = (\<lambda>req.
        if http_method req = ''GET'' then Threw ''Request with GET/HEAD method cannot have body.''
        else Returned token_response),
      getUser = Returned (Some ''u1''),
      upsert = (\<lambda>table row. Returned None),
      connectAccount = (\<lambda>p. Returned ()),
      RangeError_message = ''Invalid time value'',
      TypeError_message = (\<lambda>name. ''Cannot read properties of null (reading '' @ name @ '')'')\<rparr>"

section \<open>The combinators and the handlers, case by case\<close>

lemma andThen_pair:
  "andThen (t, r) f =
     (case r of Returned a \<Rightarrow> apfst ((@) t) (f a) | Threw e \<Rightarrow> (t, Threw e))"
  by (simp add: andThen_def split: outcome.splits prod.splits)

lemma try_catch_pair:
  "try_catch (t, r) h =
     (case r of Returned a \<Rightarrow> (t, Returned a) | Threw e \<Rightarrow> apfst ((@) t) (h e))"
  by (simp add: try_catch_def split: outcome.splits prod.splits)

lemma try_catch_apfst: "try_catch (apfst ((@) t) m) h = apfst ((@) t) (try_catch m h)"
  by (cases m) (simp add: try_catch_def split: outcome.splits prod.splits)

lemmas comp_simps = emit_def await_def ret_def throw_def andThen_pair try_catch_pair try_catch_apfst

lemma handleTwitterAuth_eq:
  "handleTwitterAuth env code =
     (let req = twitter_request env code in
      case fetch env req of
        Threw e \<Rightarrow> twitter_fail [Fetch req] e
      | Returned r \<Rightarrow>
          if \<not> ok r then
            (case json r of
               Threw e \<Rightarrow> twitter_fail [Fetch req] e
             | Returned JNull \<Rightarrow>
                 twitter_fail [Fetch req, ConsoleError ''Twitter token error:'' (LogJson JNull)]
                   (TypeError_message env ''error_description'')
             | Returned (JObject b) \<Rightarrow>
                 twitter_fail
                   [Fetch req, ConsoleError ''Twitter token error:'' (LogJson (JObject b))]
                   (or_else (error_description b) ''Failed to get Twitter access token''))
          else
            (case json r of
               Threw e \<Rightarrow> twitter_fail [Fetch req] e
             | Returned JNull \<Rightarrow> twitter_fail [Fetch req] (TypeError_message env ''access_token'')
             | Returned (JObject b) \<Rightarrow>
                 (case toISOString (RangeError_message env)
                         (new_Date (map_option (\<lambda>n. Date_now env + n * 1000) (expires_in b))) of
                    Threw e \<Rightarrow> twitter_fail [Fetch req] e
                  | Returned s \<Rightarrow>
                      (case getUser env of
                         Threw e \<Rightarrow> twitter_fail [Fetch req, GetUser] e
                       | Returned user \<Rightarrow>
                           (let row = twitter_row b s user;
                                t = [Fetch req, GetUser, Upsert ''social_media_accounts'' row]
                            in case upsert env ''social_media_accounts'' row of
                                 Threw e \<Rightarrow> twitter_fail t e
                               | Returned (Some _) \<Rightarrow>
                                   twitter_fail t ''Failed to store Twitter credentials''
                               | Returned None \<Rightarrow>
                                   (case connectAccount env ''twitter'' of
                                      Threw e \<Rightarrow> twitter_fail (t @ [ConnectAccount ''twitter'']) e
                                    | Returned u \<Rightarrow>
                                        (t @ [ConnectAccount ''twitter''], Returned u)))))))"
  by (simp add: handleTwitterAuth_def comp_simps property_def twitter_fail_def twitter_row_def
        Let_def
      split: outcome.splits json_value.splits option.splits)

lemma handleLinkedInAuth_eq:
  "handleLinkedInAuth env code =
     (case fetch env (linkedin_request env code) of
        Threw e \<Rightarrow> ([Fetch (linkedin_request env code)], Threw e)
      | Returned r \<Rightarrow>
          if \<not> ok r then
            ([Fetch (linkedin_request env code)], Threw ''Failed to get LinkedIn access token'')
          else
            (case json r of
               Threw e \<Rightarrow> ([Fetch (linkedin_request env code)], Threw e)
             | Returned _ \<Rightarrow>
                 ([Fetch (linkedin_request env code), ConnectAccount ''linkedin''],
                  connectAccount env ''linkedin'')))"
  by (simp add: handleLinkedInAuth_def comp_simps split: outcome.splits)

lemma handleFacebookAuth_eq:
  "handleFacebookAuth env code =
     (case fetch env (facebook_request env code) of
        Threw e \<Rightarrow> ([Fetch (facebook_request env code)], Threw e)
      | Returned r \<Rightarrow>
          if \<not> ok r then
            ([Fetch (facebook_request env code)], Threw ''Failed to get Facebook access token'')
          else
            (case json r of
               Threw e \<Rightarrow> ([Fetch (facebook_request env code)], Threw e)
             | Returned _ \<Rightarrow>
                 ([Fetch (facebook_request env code), ConnectAccount ''facebook''],
                  connectAccount env ''facebook'')))"
  by (simp add: handleFacebookAuth_def comp_simps split: outcome.splits)

lemma handleInstagramAuth_eq:
  "handleInstagramAuth env code =
     (case fetch env (instagram_request env code) of
        Threw e \<Rightarrow> ([Fetch (instagram_request env code)], Threw e)
      | Returned r \<Rightarrow>
          if \<not> ok r then
            ([Fetch (instagram_request env code)], Threw ''Failed to get Instagram access token'')
          else
            (case json r of
               Threw e \<Rightarrow> ([Fetch (instagram_request env code)], Threw e)
             | Returned _ \<Rightarrow>
                 ([Fetch (instagram_request env code), ConnectAccount ''instagram''],
                  connectAccount env ''instagram'')))"
  by (simp add: handleInstagramAuth_def comp_simps split: outcome.splits)

section \<open>The shape of a run\<close>

lemma handleAuth_catch_eq: "handleAuth_catch env m = (failure_events env m, Returned ())"
  by (simp add: handleAuth_catch_def failure_events_def comp_simps)

lemma handleAuth_eq:
  "handleAuth env sp =
     (case snd (handleAuth_try env sp) of
        Returned _ \<Rightarrow> fst (handleAuth_try env sp)
      | Threw m \<Rightarrow> fst (handleAuth_try env sp) @ failure_events env m)"
  by (cases "handleAuth_try env sp")
     (simp add: handleAuth_def try_catch_pair handleAuth_catch_eq split: outcome.splits)

lemma handleAuth_try_error:
  assumes "get sp ''error'' = Some e" and "e \<noteq> []"
  shows "handleAuth_try env sp = ([], Threw (''Authentication failed: '' @ e))"
  using assms by (simp add: handleAuth_try_def throw_def)

lemma handleAuth_try_missing:
  assumes "\<not> truthy (get sp ''error'')"
    and "\<not> truthy (get sp ''platform'') \<or> \<not> truthy (get sp ''code'')"
  shows "handleAuth_try env sp = ([], Threw ''Missing required parameters'')"
  using assms by (auto simp add: handleAuth_try_def throw_def)

lemma handleAuth_try_valid:
  assumes "\<not> truthy (get sp ''error'')"
    and "get sp ''platform'' = Some p" and "p \<noteq> []"
    and "get sp ''code'' = Some c" and "c \<noteq> []"
  shows "handleAuth_try env sp =
     (case switch_platform env p c of
        (t, Returned _) \<Rightarrow>
          (SetStatus (''Connecting '' @ p @ '' account...'') # t @ success_events env p,
           Returned ())
      | (t, Threw m) \<Rightarrow> (SetStatus (''Connecting '' @ p @ '' account...'') # t, Threw m))"
  using assms
  by (cases "switch_platform env p c")
     (simp add: handleAuth_try_def comp_simps success_events_def split: outcome.splits)

text \<open>Every run falls under one of the three.\<close>

lemma handleAuth_try_cases:
  obtains (error) e where "get sp ''error'' = Some e" "e \<noteq> []"
  | (missing) "\<not> truthy (get sp ''error'')"
      "\<not> truthy (get sp ''platform'') \<or> \<not> truthy (get sp ''code'')"
  | (valid) p c where "\<not> truthy (get sp ''error'')"
      "get sp ''platform'' = Some p" "p \<noteq> []" "get sp ''code'' = Some c" "c \<noteq> []"
  by (cases "get sp ''error''"; cases "get sp ''platform''"; cases "get sp ''code''") auto

lemma handler_event_twitter_fail:
  "list_all handler_event t \<Longrightarrow> list_all handler_event (fst (twitter_fail t e))"
  by (simp add: twitter_fail_def handler_event_def)

lemma handler_event_twitter: "list_all handler_event (fst (handleTwitterAuth env c))"
  by (simp add: handleTwitterAuth_eq handler_event_twitter_fail handler_event_def Let_def
      split: outcome.splits json_value.splits option.splits)

lemma handler_event_linkedin: "list_all handler_event (fst (handleLinkedInAuth env c))"
  by (simp add: handleLinkedInAuth_eq handler_event_def split: outcome.splits)

lemma handler_event_facebook: "list_all handler_event (fst (handleFacebookAuth env c))"
  by (simp add: handleFacebookAuth_eq handler_event_def split: outcome.splits)

lemma handler_event_instagram: "list_all handler_event (fst (handleInstagramAuth env c))"
  by (simp add: handleInstagramAuth_eq handler_event_def split: outcome.splits)

lemma handler_event_switch: "list_all handler_event (fst (switch_platform env p c))"
  by (simp add: switch_platform_def handler_event_twitter handler_event_linkedin
        handler_event_facebook handler_event_instagram throw_def)

lemma flatten_simps:
  "flatten [] = []"
  "flatten (e # t) = events e @ flatten t"
  "flatten (t @ u) = flatten t @ flatten u"
  by (simp_all add: flatten_def)

lemma flatten_failure_events:
  "flatten (failure_events env m) =
     [ConsoleError ''Auth callback error:'' (LogError m), SetError m,
      SetStatus ''Authentication failed'',
      SetTimeout
        (if opener env then [PostMessage (SOCIAL_AUTH_ERROR m) (origin env), WindowClose]
         else [Navigate ''/''])
        3000]
     @ (if opener env then [PostMessage (SOCIAL_AUTH_ERROR m) (origin env), WindowClose]
        else [Navigate ''/''])"
  by (simp add: failure_events_def flatten_def)

lemma quiet_simps:
  "quiet (SetStatus s)" "handler_event e \<Longrightarrow> quiet e"
  by (auto simp add: quiet_def propagation_def handler_event_def split: event.splits)

lemma events_quiet: "\<not> is_SetTimeout e \<Longrightarrow> events e = [e]"
  by (cases e) simp_all

lemma quiet_list:
  assumes "list_all quiet t"
  shows "flatten t = t" and "filter propagation t = []" and "filter is_SetTimeout t = []"
  using assms
  by (induction t) (simp_all add: flatten_def quiet_def events_quiet)

lemma handleAuth_shape:
  obtains (failed) t m where
      "handleAuth_try env sp = (t, Threw m)"
      "handleAuth env sp = t @ failure_events env m"
      "list_all quiet t"
  | (succeeded) t p where
      "handleAuth_try env sp = (t @ success_events env p, Returned ())"
      "handleAuth env sp = t @ success_events env p"
      "get sp ''platform'' = Some p"
      "list_all quiet t"
proof (cases sp rule: handleAuth_try_cases)
  case (error e)
  then have "handleAuth_try env sp = ([], Threw (''Authentication failed: '' @ e))"
    by (rule handleAuth_try_error)
  then show ?thesis
    by (intro failed [of "[]"]) (simp_all add: handleAuth_eq)
next
  case missing
  then have "handleAuth_try env sp = ([], Threw ''Missing required parameters'')"
    by (rule handleAuth_try_missing)
  then show ?thesis
    by (intro failed [of "[]"]) (simp_all add: handleAuth_eq)
next
  case (valid p c)
  note shape = handleAuth_try_valid [OF valid, of env]
  obtain t r where sw: "switch_platform env p c = (t, r)"
    by (cases "switch_platform env p c")
  with handler_event_switch [of env p c] have "list_all handler_event t"
    by simp
  then have q: "list_all quiet (SetStatus (''Connecting '' @ p @ '' account...'') # t)"
    by (simp add: quiet_simps list_all_iff)
  show ?thesis
  proof (cases r)
    case (Returned u)
    with shape sw show ?thesis
      by (intro succeeded [of "SetStatus (''Connecting '' @ p @ '' account...'') # t" p])
         (simp_all add: handleAuth_eq valid q [simplified])
  next
    case (Threw m)
    with shape sw show ?thesis
      by (intro failed [of "SetStatus (''Connecting '' @ p @ '' account...'') # t" m])
         (simp_all add: handleAuth_eq q [simplified])
  qed
qed

lemma handleAuth_valid:
  assumes "\<not> truthy (get sp ''error'')"
    and "get sp ''platform'' = Some p" and "p \<noteq> []"
    and "get sp ''code'' = Some c" and "c \<noteq> []"
  shows "handleAuth env sp =
     SetStatus (''Connecting '' @ p @ '' account...'')
     # fst (switch_platform env p c)
     @ (case snd (switch_platform env p c) of
          Returned _ \<Rightarrow> success_events env p
        | Threw m \<Rightarrow> failure_events env m)"
    and "snd (handleAuth_try env sp) = snd (switch_platform env p c)"
  using handleAuth_try_valid [OF assms, of env]
  by (cases "switch_platform env p c"; simp add: handleAuth_eq split: outcome.splits)+

lemma switch_twitter: "switch_platform env ''twitter'' c = handleTwitterAuth env c"
  by (simp add: switch_platform_def)

lemma switch_unsupported:
  assumes "p \<notin> {''twitter'', ''linkedin'', ''facebook'', ''instagram''}"
  shows "switch_platform env p c = ([], Threw ''Unsupported platform'')"
  using assms by (simp add: switch_platform_def throw_def)

lemma switch_other_cases:
  assumes "p \<in> {''linkedin'', ''facebook'', ''instagram''}"
  obtains (rejected) e where
      "fetch env (token_request env p c) = Threw e"
      "switch_platform env p c = ([Fetch (token_request env p c)], Threw e)"
  | (refused) r m where
      "fetch env (token_request env p c) = Returned r" "\<not> ok r"
      "switch_platform env p c = ([Fetch (token_request env p c)], Threw m)"
  | (malformed) r e where
      "fetch env (token_request env p c) = Returned r" "ok r" "json r = Threw e"
      "switch_platform env p c = ([Fetch (token_request env p c)], Threw e)"
  | (connected) r j where
      "fetch env (token_request env p c) = Returned r" "ok r" "json r = Returned j"
      "switch_platform env p c =
         ([Fetch (token_request env p c), ConnectAccount p], connectAccount env p)"
proof -
  from assms consider "p = ''linkedin''" | "p = ''facebook''" | "p = ''instagram''"
    by auto
  then show ?thesis
  proof cases
    case 1
    have sw: "switch_platform env ''linkedin'' c = handleLinkedInAuth env c"
      and req: "token_request env ''linkedin'' c = linkedin_request env c"
      by (simp_all add: switch_platform_def token_request_def)
    show ?thesis
    proof (cases "fetch env (linkedin_request env c)")
      case (Threw e)
      then show ?thesis
        by (intro rejected [of e]) (simp_all add: 1 sw req handleLinkedInAuth_eq)
    next
      case (Returned r)
      show ?thesis
      proof (cases "ok r")
        case False
        with Returned show ?thesis
          by (intro refused [of r]) (simp_all add: 1 sw req handleLinkedInAuth_eq)
      next
        case True
        show ?thesis
        proof (cases "json r")
          case (Threw e)
          with Returned True show ?thesis
            by (intro malformed [of r e]) (simp_all add: 1 sw req handleLinkedInAuth_eq)
        next
          case (Returned j)
          with \<open>fetch env (linkedin_request env c) = Returned r\<close> True show ?thesis
            by (intro connected [of r j]) (simp_all add: 1 sw req handleLinkedInAuth_eq)
        qed
      qed
    qed
  next
    case 2
    have sw: "switch_platform env ''facebook'' c = handleFacebookAuth env c"
      and req: "token_request env ''facebook'' c = facebook_request env c"
      by (simp_all add: switch_platform_def token_request_def)
    show ?thesis
    proof (cases "fetch env (facebook_request env c)")
      case (Threw e)
      then show ?thesis
        by (intro rejected [of e]) (simp_all add: 2 sw req handleFacebookAuth_eq)
    next
      case (Returned r)
      show ?thesis
      proof (cases "ok r")
        case False
        with Returned show ?thesis
          by (intro refused [of r]) (simp_all add: 2 sw req handleFacebookAuth_eq)
      next
        case True
        show ?thesis
        proof (cases "json r")
          case (Threw e)
          with Returned True show ?thesis
            by (intro malformed [of r e]) (simp_all add: 2 sw req handleFacebookAuth_eq)
        next
          case (Returned j)
          with \<open>fetch env (facebook_request env c) = Returned r\<close> True show ?thesis
            by (intro connected [of r j]) (simp_all add: 2 sw req handleFacebookAuth_eq)
        qed
      qed
    qed
  next
    case 3
    have sw: "switch_platform env ''instagram'' c = handleInstagramAuth env c"
      and req: "token_request env ''instagram'' c = instagram_request env c"
      by (simp_all add: switch_platform_def token_request_def)
    show ?thesis
    proof (cases "fetch env (instagram_request env c)")
      case (Threw e)
      then show ?thesis
        by (intro rejected [of e]) (simp_all add: 3 sw req handleInstagramAuth_eq)
    next
      case (Returned r)
      show ?thesis
      proof (cases "ok r")
        case False
        with Returned show ?thesis
          by (intro refused [of r]) (simp_all add: 3 sw req handleInstagramAuth_eq)
      next
        case True
        show ?thesis
        proof (cases "json r")
          case (Threw e)
          with Returned True show ?thesis
            by (intro malformed [of r e]) (simp_all add: 3 sw req handleInstagramAuth_eq)
        next
          case (Returned j)
          with \<open>fetch env (instagram_request env c) = Returned r\<close> True show ?thesis
            by (intro connected [of r j]) (simp_all add: 3 sw req handleInstagramAuth_eq)
        qed
      qed
    qed
  qed
qed

lemma flatten_run:
  assumes "list_all handler_event t"
  shows "flatten (SetStatus s # t @ u) = SetStatus s # t @ flatten u"
  using assms quiet_list(1) [of t] by (simp add: flatten_simps quiet_simps list_all_iff)

lemma no_persistence_elsewhere:
  assumes "p \<noteq> ''twitter''"
  shows "list_all (\<lambda>e. \<not> is_Upsert e \<and> \<not> is_GetUser e) (fst (switch_platform env p c))"
proof (cases "p \<in> {''linkedin'', ''facebook'', ''instagram''}")
  case True
  then show ?thesis
    by (cases rule: switch_other_cases [where env = env and c = c]) simp_all
next
  case False
  with assms show ?thesis
    by (simp add: switch_unsupported)
qed

lemma twitter_run:
  assumes "\<not> truthy (get sp ''error'')"
    and "get sp ''platform'' = Some ''twitter''"
    and "get sp ''code'' = Some c" and "c \<noteq> []"
  shows "handleAuth env sp =
     SetStatus ''Connecting twitter account...''
     # fst (handleTwitterAuth env c)
     @ (case snd (handleTwitterAuth env c) of
          Returned _ \<Rightarrow> success_events env ''twitter''
        | Threw m \<Rightarrow> failure_events env m)"
    and "flatten (handleAuth env sp) =
     SetStatus ''Connecting twitter account...''
     # fst (handleTwitterAuth env c)
     @ flatten (case snd (handleTwitterAuth env c) of
          Returned _ \<Rightarrow> success_events env ''twitter''
        | Threw m \<Rightarrow> failure_events env m)"
proof -
  show run: "handleAuth env sp =
     SetStatus ''Connecting twitter account...''
     # fst (handleTwitterAuth env c)
     @ (case snd (handleTwitterAuth env c) of
          Returned _ \<Rightarrow> success_events env ''twitter''
        | Threw m \<Rightarrow> failure_events env m)"
    using handleAuth_valid(1) [OF assms(1,2) _ assms(3,4), of env]
    by (simp add: switch_twitter)
  show "flatten (handleAuth env sp) =
     SetStatus ''Connecting twitter account...''
     # fst (handleTwitterAuth env c)
     @ flatten (case snd (handleTwitterAuth env c) of
          Returned _ \<Rightarrow> success_events env ''twitter''
        | Threw m \<Rightarrow> failure_events env m)"
    unfolding run by (rule flatten_run) (rule handler_event_twitter)
qed

lemma persisted_simps:
  "persisted env (t @ u) = (persisted env t \<or> persisted env u)"
  "persisted env (SetStatus s # t) = persisted env t"
  "persisted env (success_events env' p) = False"
  "persisted env (failure_events env' m) = False"
  by (simp_all add: persisted_def success_events_def failure_events_def)

lemma twitter_persisted:
  "persisted env (fst (handleTwitterAuth env c)) \<longrightarrow>
     filter is_ConnectAccount (fst (handleTwitterAuth env c)) = [ConnectAccount ''twitter'']"
  by (simp add: handleTwitterAuth_eq persisted_def twitter_fail_def Let_def
      split: outcome.splits json_value.splits option.splits)

lemma connect_tail:
  "filter is_ConnectAccount (flatten (case r of Returned _ \<Rightarrow> success_events env p
      | Threw m \<Rightarrow> failure_events env m)) = []"
  by (simp add: flatten_failure_events flatten_simps success_events_def split: outcome.splits)

lemma twitter_lookup:
  "(Upsert table row \<in> set (fst (handleTwitterAuth env c)) \<longrightarrow>
      (\<exists>rest. fst (handleTwitterAuth env c) =
         Fetch (twitter_request env c) # GetUser # Upsert table row # rest)
      \<and> getUser env = Returned (user_id row))
   \<and> (GetUser \<in> set (fst (handleTwitterAuth env c)) \<and> getUser env = Returned user \<longrightarrow>
      (\<exists>row. Upsert ''social_media_accounts'' row \<in> set (fst (handleTwitterAuth env c))
         \<and> user_id row = user))"
  by (simp add: handleTwitterAuth_eq twitter_fail_def twitter_row_def Let_def
      split: outcome.splits json_value.splits option.splits)

lemma twitter_expiry:
  "fetch env (twitter_request env c) = Returned r \<longrightarrow>
   json r = Returned (JObject b) \<longrightarrow>
   expires_in b = Some n \<longrightarrow>
   Upsert table row \<in> set (fst (handleTwitterAuth env c)) \<longrightarrow>
   expires_at row = iso_string (Date_now env + n * 1000)"
  by (simp add: handleTwitterAuth_eq twitter_fail_def twitter_row_def toISOString_def
        new_Date_def Let_def
      split: outcome.splits json_value.splits option.splits if_splits)

lemma lookup_tail:
  "Upsert table row \<notin> set (flatten (case r of Returned _ \<Rightarrow> success_events env p
      | Threw m \<Rightarrow> failure_events env m))"
  "GetUser \<notin> set (flatten (case r of Returned _ \<Rightarrow> success_events env p
      | Threw m \<Rightarrow> failure_events env m))"
  by (simp_all add: flatten_failure_events flatten_simps success_events_def split: outcome.splits)

lemma switch_starts_with_fetch:
  assumes "p \<in> {''twitter'', ''linkedin'', ''facebook'', ''instagram''}"
  shows "\<exists>t. fst (switch_platform env p c) = Fetch (token_request env p c) # t"
proof (cases "p = ''twitter''")
  case True
  then show ?thesis
    by (simp add: switch_twitter token_request_def handleTwitterAuth_eq twitter_fail_def Let_def
        split: outcome.splits json_value.splits option.splits)
next
  case False
  with assms have "p \<in> {''linkedin'', ''facebook'', ''instagram''}"
    by auto
  then show ?thesis
    by (cases rule: switch_other_cases [where env = env and c = c]) simp_all
qed

section \<open>The claims\<close>

text \<open>
  C1, as amended. A run whose query carries a non-empty \<^verbatim>\<open>error\<close> throws before it has made
  a single event, with the provider's text in the message; the run is the four steps of the
  \<^verbatim>\<open>catch\<close> block, and no \<^verbatim>\<open>fetch\<close> is made, neither at once nor when the timer fires.
\<close>

theorem provider_error_fails_without_exchange:
  assumes "get searchParams ''error'' = Some e" and "e \<noteq> []"
  shows "handleAuth_try env searchParams = ([], Threw (''Authentication failed: '' @ e))
    \<and> handleAuth env searchParams =
        [ConsoleError ''Auth callback error:'' (LogError (''Authentication failed: '' @ e)),
         SetError (''Authentication failed: '' @ e),
         SetStatus ''Authentication failed'',
         SetTimeout
           (if opener env
            then [PostMessage (SOCIAL_AUTH_ERROR (''Authentication failed: '' @ e)) (origin env),
                  WindowClose]
            else [Navigate ''/''])
           3000]
    \<and> filter is_Fetch (flatten (handleAuth env searchParams)) = []"
proof -
  have thrown: "handleAuth_try env searchParams = ([], Threw (''Authentication failed: '' @ e))"
    using assms by (rule handleAuth_try_error)
  then have run: "handleAuth env searchParams = failure_events env (''Authentication failed: '' @ e)"
    by (simp add: handleAuth_eq)
  have "filter is_Fetch (flatten (handleAuth env searchParams)) = []"
    by (simp add: run flatten_failure_events)
  with thrown run show ?thesis
    by (simp add: failure_events_def)
qed

theorem provider_error_fails_without_exchange_witness:
  "get [(''error'', ''access_denied''), (''platform'', ''twitter''), (''code'', ''abc'')] ''error''
     = Some ''access_denied''
   \<and> ''access_denied'' \<noteq> []
   \<and> handleAuth env_example
        [(''error'', ''access_denied''), (''platform'', ''twitter''), (''code'', ''abc'')] =
        [ConsoleError ''Auth callback error:'' (LogError ''Authentication failed: access_denied''),
         SetError ''Authentication failed: access_denied'',
         SetStatus ''Authentication failed'',
         SetTimeout
           [PostMessage (SOCIAL_AUTH_ERROR ''Authentication failed: access_denied'')
              ''https://app.example'',
            WindowClose]
           3000]
   \<and> filter is_Fetch (flatten (handleAuth env_example
        [(''error'', ''access_denied''), (''platform'', ''twitter''), (''code'', ''abc'')])) = []"
proof -
  have error: "get [(''error'', ''access_denied''), (''platform'', ''twitter''), (''code'', ''abc'')]
      ''error'' = Some ''access_denied''"
    by (simp add: get_def)
  have nonempty: "''access_denied'' \<noteq> []"
    by simp
  have window: "opener env_example" "origin env_example = ''https://app.example''"
    by (simp_all add: env_example_def)
  note run = provider_error_fails_without_exchange [OF error nonempty, of env_example]
  have events: "handleAuth env_example
        [(''error'', ''access_denied''), (''platform'', ''twitter''), (''code'', ''abc'')] =
        [ConsoleError ''Auth callback error:'' (LogError ''Authentication failed: access_denied''),
         SetError ''Authentication failed: access_denied'',
         SetStatus ''Authentication failed'',
         SetTimeout
           [PostMessage (SOCIAL_AUTH_ERROR ''Authentication failed: access_denied'')
              ''https://app.example'',
            WindowClose]
           3000]"
    using run by (simp add: window)
  from error nonempty events run show ?thesis
    by blast
qed

text \<open>
  C1 as stated fails for an \<^verbatim>\<open>error\<close> parameter that is present and empty
  (\<^verbatim>\<open>?error=&platform=linkedin&code=abc\<close>): \<^verbatim>\<open>if (error)\<close> is false on the empty string, the
  handler runs, the token endpoint is called and the run succeeds.
\<close>

theorem empty_error_parameter_reaches_exchange:
  "get [(''error'', []), (''platform'', ''linkedin''), (''code'', ''abc'')] ''error'' = Some []
   \<and> handleAuth env_example [(''error'', []), (''platform'', ''linkedin''), (''code'', ''abc'')] =
        [SetStatus ''Connecting linkedin account...'',
         Fetch (linkedin_request env_example ''abc''),
         ConnectAccount ''linkedin'',
         SetStatus ''Successfully connected!'',
         PostMessage (SOCIAL_AUTH_SUCCESS ''linkedin'') ''https://app.example'',
         WindowClose]"
  by code_simp

text \<open>
  C2, as amended. For a supported platform and a code, if the exchange succeeds and, for
  twitter, the credentials were persisted, the run calls \<^verbatim>\<open>connectAccount\<close> exactly once, with
  the platform. For linkedin, facebook and instagram nothing is persisted and the success
  of the exchange is enough.
\<close>

theorem completed_handler_notifies_once:
  assumes "\<not> truthy (get searchParams ''error'')"
    and "get searchParams ''platform'' = Some p"
    and "p \<in> {''twitter'', ''linkedin'', ''facebook'', ''instagram''}"
    and "get searchParams ''code'' = Some code" and "code \<noteq> []"
    and "exchange_succeeds env (token_request env p code)"
    and "p = ''twitter'' \<Longrightarrow> persisted env (handleAuth env searchParams)"
  shows "filter is_ConnectAccount (flatten (handleAuth env searchParams)) = [ConnectAccount p]"
proof (cases "p = ''twitter''")
  case True
  note valid = assms(1) assms(2) [unfolded True] assms(4,5)
  from assms(7) True have "persisted env (fst (handleTwitterAuth env code))"
    by (simp add: twitter_run(1) [OF valid] persisted_simps split: outcome.splits)
  with twitter_persisted
  have "filter is_ConnectAccount (fst (handleTwitterAuth env code)) = [ConnectAccount ''twitter'']"
    by blast
  then show ?thesis
    by (simp add: twitter_run(2) [OF valid] connect_tail True)
next
  case False
  with assms(3) have other: "p \<in> {''linkedin'', ''facebook'', ''instagram''}" and "p \<noteq> []"
    by auto
  note run = handleAuth_valid [OF assms(1,2) \<open>p \<noteq> []\<close> assms(4,5), of env]
  have flat: "flatten (handleAuth env searchParams) =
     SetStatus (''Connecting '' @ p @ '' account...'')
     # fst (switch_platform env p code)
     @ flatten (case snd (switch_platform env p code) of
          Returned _ \<Rightarrow> success_events env p
        | Threw m \<Rightarrow> failure_events env m)"
    by (simp add: run(1) flatten_run handler_event_switch)
  from other show ?thesis
  proof (cases rule: switch_other_cases [where env = env and c = code])
    case (connected r j)
    then show ?thesis
      by (simp add: flat connect_tail)
  qed (use assms(6) in \<open>simp_all add: exchange_succeeds_def\<close>)
qed

theorem completed_handler_notifies_once_witness:
  "exchange_succeeds env_example (token_request env_example ''twitter'' ''abc'')
   \<and> persisted env_example
        (handleAuth env_example [(''platform'', ''twitter''), (''code'', ''abc'')])
   \<and> filter is_ConnectAccount
        (flatten (handleAuth env_example [(''platform'', ''twitter''), (''code'', ''abc'')]))
       = [ConnectAccount ''twitter'']
   \<and> exchange_succeeds env_example (token_request env_example ''linkedin'' ''abc'')
   \<and> \<not> persisted env_example
        (handleAuth env_example [(''platform'', ''linkedin''), (''code'', ''abc'')])
   \<and> filter is_ConnectAccount
        (flatten (handleAuth env_example [(''platform'', ''linkedin''), (''code'', ''abc'')]))
       = [ConnectAccount ''linkedin'']"
proof -
  have no_error: "\<not> truthy (get [(''platform'', p), (''code'', ''abc'')] ''error'')" for p
    by (simp add: get_def)
  have platform: "get [(''platform'', p), (''code'', ''abc'')] ''platform'' = Some p" for p
    by (simp add: get_def)
  have code: "get [(''platform'', p), (''code'', ''abc'')] ''code'' = Some ''abc''" for p
    by (simp add: get_def)
  have nonempty: "''abc'' \<noteq> []"
    by simp
  have twitter: "''twitter'' \<in> {''twitter'', ''linkedin'', ''facebook'', ''instagram''}"
    and linkedin: "''linkedin'' \<in> {''twitter'', ''linkedin'', ''facebook'', ''instagram''}"
    by simp_all
  have exchanged: "exchange_succeeds env_example (token_request env_example ''twitter'' ''abc'')"
    by code_simp
  have stored: "persisted env_example
      (handleAuth env_example [(''platform'', ''twitter''), (''code'', ''abc'')])"
    by code_simp
  have exchanged': "exchange_succeeds env_example (token_request env_example ''linkedin'' ''abc'')"
    by code_simp
  have not_stored: "\<not> persisted env_example
      (handleAuth env_example [(''platform'', ''linkedin''), (''code'', ''abc'')])"
    by code_simp
  have "filter is_ConnectAccount
        (flatten (handleAuth env_example [(''platform'', ''twitter''), (''code'', ''abc'')]))
       = [ConnectAccount ''twitter'']"
    by (rule completed_handler_notifies_once
          [OF no_error platform twitter code nonempty exchanged]) (rule stored)
  moreover have "filter is_ConnectAccount
        (flatten (handleAuth env_example [(''platform'', ''linkedin''), (''code'', ''abc'')]))
       = [ConnectAccount ''linkedin'']"
    by (rule completed_handler_notifies_once
          [OF no_error platform linkedin code nonempty exchanged']) simp
  ultimately show ?thesis
    using exchanged stored exchanged' not_stored by blast
qed

text \<open>
  C2 as stated fails for twitter when the storage client reports an error: the exchange has
  succeeded, the handler throws \<^verbatim>\<open>Failed to store Twitter credentials\<close>, and
  \<^verbatim>\<open>connectAccount\<close> is never called.
\<close>

theorem storage_error_skips_notification:
  "exchange_succeeds
     (env_example\<lparr>upsert := \<lambda>table row. Returned (Some ''permission denied'')\<rparr>)
     (token_request
        (env_example\<lparr>upsert := \<lambda>table row. Returned (Some ''permission denied'')\<rparr>)
        ''twitter'' ''abc'')
   \<and> filter is_ConnectAccount
        (flatten (handleAuth
           (env_example\<lparr>upsert := \<lambda>table row. Returned (Some ''permission denied'')\<rparr>)
           [(''platform'', ''twitter''), (''code'', ''abc'')])) = []
   \<and> filter is_SetError
        (handleAuth
           (env_example\<lparr>upsert := \<lambda>table row. Returned (Some ''permission denied'')\<rparr>)
           [(''platform'', ''twitter''), (''code'', ''abc'')])
       = [SetError ''Failed to store Twitter credentials'']"
  by code_simp

text \<open>
  C3. In a popup, a run whose \<^verbatim>\<open>try\<close> block completes posts \<^verbatim>\<open>SOCIAL_AUTH_SUCCESS\<close> with the
  platform, and a run that fails with message \<open>m\<close> posts \<^verbatim>\<open>SOCIAL_AUTH_ERROR\<close> with \<open>m\<close>: in
  both, the message goes to the page's own origin, the window is closed right after it, and
  these two steps are the only steps of the run (timer callback included) that post, close or
  navigate, and the last ones.
\<close>

theorem popup_posts_one_message_then_closes:
  assumes "opener env"
  shows "case snd (handleAuth_try env searchParams) of
      Returned _ \<Rightarrow>
        (\<exists>p. get searchParams ''platform'' = Some p
          \<and> filter propagation (flatten (handleAuth env searchParams)) =
              [PostMessage (SOCIAL_AUTH_SUCCESS p) (origin env), WindowClose])
        \<and> last (flatten (handleAuth env searchParams)) = WindowClose
    | Threw m \<Rightarrow>
        filter propagation (flatten (handleAuth env searchParams)) =
          [PostMessage (SOCIAL_AUTH_ERROR m) (origin env), WindowClose]
        \<and> last (flatten (handleAuth env searchParams)) = WindowClose"
proof (cases rule: handleAuth_shape [where env = env and sp = searchParams])
  case (failed t m)
  with assms quiet_list [OF failed(3)] show ?thesis
    by (simp add: flatten_simps flatten_failure_events propagation_def)
next
  case (succeeded t p)
  with assms quiet_list [OF succeeded(4)] show ?thesis
    by (simp add: flatten_simps success_events_def propagation_def)
qed

theorem popup_posts_one_message_then_closes_witness:
  "opener env_example
   \<and> snd (handleAuth_try env_example [(''platform'', ''twitter''), (''code'', ''abc'')])
       = Returned ()
   \<and> filter propagation
        (flatten (handleAuth env_example [(''platform'', ''twitter''), (''code'', ''abc'')])) =
        [PostMessage (SOCIAL_AUTH_SUCCESS ''twitter'') ''https://app.example'', WindowClose]
   \<and> snd (handleAuth_try env_example [(''platform'', ''tiktok''), (''code'', ''abc'')])
       = Threw ''Unsupported platform''
   \<and> filter propagation
        (flatten (handleAuth env_example [(''platform'', ''tiktok''), (''code'', ''abc'')])) =
        [PostMessage (SOCIAL_AUTH_ERROR ''Unsupported platform'') ''https://app.example'',
         WindowClose]"
proof -
  have window: "opener env_example" "origin env_example = ''https://app.example''"
    by (simp_all add: env_example_def)
  have twitter: "get [(''platform'', ''twitter''), (''code'', ''abc'')] ''platform'' = Some ''twitter''"
    by (simp add: get_def)
  have succeeds:
    "snd (handleAuth_try env_example [(''platform'', ''twitter''), (''code'', ''abc'')]) = Returned ()"
    by code_simp
  have fails:
    "snd (handleAuth_try env_example [(''platform'', ''tiktok''), (''code'', ''abc'')])
       = Threw ''Unsupported platform''"
    by code_simp
  from popup_posts_one_message_then_closes
    [OF window(1), of "[(''platform'', ''twitter''), (''code'', ''abc'')]"]
  have posted: "filter propagation
        (flatten (handleAuth env_example [(''platform'', ''twitter''), (''code'', ''abc'')])) =
        [PostMessage (SOCIAL_AUTH_SUCCESS ''twitter'') ''https://app.example'', WindowClose]"
    by (simp add: succeeds twitter window)
  from popup_posts_one_message_then_closes
    [OF window(1), of "[(''platform'', ''tiktok''), (''code'', ''abc'')]"]
  have reported: "filter propagation
        (flatten (handleAuth env_example [(''platform'', ''tiktok''), (''code'', ''abc'')])) =
        [PostMessage (SOCIAL_AUTH_ERROR ''Unsupported platform'') ''https://app.example'',
         WindowClose]"
    by (simp add: fails window)
  from window(1) succeeds posted fails reported show ?thesis
    by blast
qed

text \<open>
  C4. The steps a run makes at once are the events of \<open>handleAuth\<close> itself; those it makes
  after a delay are inside a \<open>SetTimeout\<close>. A run whose \<^verbatim>\<open>try\<close> block completes sets no timer,
  and outside a popup its only propagation step, and its last step, is the navigation to
  \<^verbatim>\<open>/\<close>. A run that fails posts, closes and navigates nothing at once: its last step sets the
  one timer of the run, of 3000 ms, whose callback is the navigation to \<^verbatim>\<open>/\<close> (in a popup: the
  message to the opener and the closing of the window).
\<close>

theorem propagation_is_delayed_only_on_failure:
  "case snd (handleAuth_try env searchParams) of
      Returned _ \<Rightarrow>
        filter is_SetTimeout (handleAuth env searchParams) = []
        \<and> (\<not> opener env \<longrightarrow>
             filter propagation (handleAuth env searchParams) = [Navigate ''/'']
             \<and> last (handleAuth env searchParams) = Navigate ''/'')
    | Threw m \<Rightarrow>
        filter propagation (handleAuth env searchParams) = []
        \<and> filter is_SetTimeout (handleAuth env searchParams) =
            [SetTimeout
               (if opener env then [PostMessage (SOCIAL_AUTH_ERROR m) (origin env), WindowClose]
                else [Navigate ''/''])
               3000]
        \<and> last (handleAuth env searchParams) =
            SetTimeout
              (if opener env then [PostMessage (SOCIAL_AUTH_ERROR m) (origin env), WindowClose]
               else [Navigate ''/''])
              3000"
proof (cases rule: handleAuth_shape [where env = env and sp = searchParams])
  case (failed t m)
  with quiet_list [OF failed(3)] show ?thesis
    by (simp add: failure_events_def propagation_def)
next
  case (succeeded t p)
  with quiet_list [OF succeeded(4)] show ?thesis
    by (simp add: success_events_def propagation_def)
qed

theorem propagation_is_delayed_only_on_failure_witness:
  "\<not> opener (env_example\<lparr>opener := False\<rparr>)
   \<and> snd (handleAuth_try (env_example\<lparr>opener := False\<rparr>)
         [(''platform'', ''linkedin''), (''code'', ''abc'')]) = Returned ()
   \<and> filter is_SetTimeout (handleAuth (env_example\<lparr>opener := False\<rparr>)
         [(''platform'', ''linkedin''), (''code'', ''abc'')]) = []
   \<and> last (handleAuth (env_example\<lparr>opener := False\<rparr>)
         [(''platform'', ''linkedin''), (''code'', ''abc'')]) = Navigate ''/''
   \<and> snd (handleAuth_try (env_example\<lparr>opener := False\<rparr>)
         [(''platform'', ''linkedin'')]) = Threw ''Missing required parameters''
   \<and> filter propagation (handleAuth (env_example\<lparr>opener := False\<rparr>)
         [(''platform'', ''linkedin'')]) = []
   \<and> last (handleAuth (env_example\<lparr>opener := False\<rparr>) [(''platform'', ''linkedin'')])
       = SetTimeout [Navigate ''/''] 3000"
proof -
  have window: "\<not> opener (env_example\<lparr>opener := False\<rparr>)"
    by simp
  have succeeds: "snd (handleAuth_try (env_example\<lparr>opener := False\<rparr>)
         [(''platform'', ''linkedin''), (''code'', ''abc'')]) = Returned ()"
    by code_simp
  have fails: "snd (handleAuth_try (env_example\<lparr>opener := False\<rparr>)
         [(''platform'', ''linkedin'')]) = Threw ''Missing required parameters''"
    by code_simp
  from propagation_is_delayed_only_on_failure
    [of "env_example\<lparr>opener := False\<rparr>" "[(''platform'', ''linkedin''), (''code'', ''abc'')]"]
  have immediate:
    "filter is_SetTimeout (handleAuth (env_example\<lparr>opener := False\<rparr>)
         [(''platform'', ''linkedin''), (''code'', ''abc'')]) = []
     \<and> last (handleAuth (env_example\<lparr>opener := False\<rparr>)
         [(''platform'', ''linkedin''), (''code'', ''abc'')]) = Navigate ''/''"
    by (simp add: succeeds)
  from propagation_is_delayed_only_on_failure
    [of "env_example\<lparr>opener := False\<rparr>" "[(''platform'', ''linkedin'')]"]
  have delayed:
    "filter propagation (handleAuth (env_example\<lparr>opener := False\<rparr>)
         [(''platform'', ''linkedin'')]) = []
     \<and> last (handleAuth (env_example\<lparr>opener := False\<rparr>) [(''platform'', ''linkedin'')])
       = SetTimeout [Navigate ''/''] 3000"
    by (simp add: fails)
  from window succeeds immediate fails delayed show ?thesis
    by blast
qed

text \<open>
  C5, as amended. An \<^verbatim>\<open>upsert\<close> is made only in a twitter run, right after the \<^verbatim>\<open>getUser\<close> call,
  and its row carries the identifier that call returned. Whatever identifier the call
  returns, \<^verbatim>\<open>undefined\<close> included, the \<^verbatim>\<open>upsert\<close> follows with it: the run does not fail for
  the lack of a signed-in user.
\<close>

theorem upsert_follows_user_lookup:
  "(Upsert table row \<in> set (flatten (handleAuth env searchParams)) \<longrightarrow>
      (\<exists>code rest. get searchParams ''code'' = Some code
         \<and> handleAuth env searchParams =
             SetStatus ''Connecting twitter account...''
             # Fetch (twitter_request env code) # GetUser # Upsert table row # rest)
      \<and> getUser env = Returned (user_id row))
   \<and> (GetUser \<in> set (flatten (handleAuth env searchParams)) \<and> getUser env = Returned user \<longrightarrow>
      (\<exists>row. Upsert ''social_media_accounts'' row \<in> set (handleAuth env searchParams)
         \<and> user_id row = user))"
proof (cases searchParams rule: handleAuth_try_cases)
  case (error e)
  then have "handleAuth_try env searchParams = ([], Threw (''Authentication failed: '' @ e))"
    by (rule handleAuth_try_error)
  then show ?thesis
    by (simp add: handleAuth_eq flatten_failure_events)
next
  case missing
  then have "handleAuth_try env searchParams = ([], Threw ''Missing required parameters'')"
    by (rule handleAuth_try_missing)
  then show ?thesis
    by (simp add: handleAuth_eq flatten_failure_events)
next
  case (valid p c)
  show ?thesis
  proof (cases "p = ''twitter''")
    case True
    note run = twitter_run [OF valid(1) valid(2) [unfolded True] valid(4,5), of env]
    have members:
      "Upsert table row \<in> set (flatten (handleAuth env searchParams))
         \<longleftrightarrow> Upsert table row \<in> set (fst (handleTwitterAuth env c))"
      "GetUser \<in> set (flatten (handleAuth env searchParams))
         \<longleftrightarrow> GetUser \<in> set (fst (handleTwitterAuth env c))"
      by (simp_all add: run(2) lookup_tail)
    have first: "\<exists>code rest. get searchParams ''code'' = Some code
         \<and> handleAuth env searchParams =
             SetStatus ''Connecting twitter account...''
             # Fetch (twitter_request env code) # GetUser # Upsert table row # rest"
      if "fst (handleTwitterAuth env c) =
         Fetch (twitter_request env c) # GetUser # Upsert table row # rest" for rest
      using that by (simp add: run(1) valid(4))
    have second: "\<exists>row. Upsert ''social_media_accounts'' row \<in> set (handleAuth env searchParams)
         \<and> user_id row = user"
      if "Upsert ''social_media_accounts'' row \<in> set (fst (handleTwitterAuth env c))"
        and "user_id row = user" for row
      using that by (auto simp add: run(1))
    from twitter_lookup [of table row env c user] first second show ?thesis
      unfolding members by blast
  next
    case False
    note run = handleAuth_valid [OF valid, of env]
    have flat: "flatten (handleAuth env searchParams) =
       SetStatus (''Connecting '' @ p @ '' account...'')
       # fst (switch_platform env p c)
       @ flatten (case snd (switch_platform env p c) of
            Returned _ \<Rightarrow> success_events env p
          | Threw m \<Rightarrow> failure_events env m)"
      by (simp add: run(1) flatten_run handler_event_switch)
    from no_persistence_elsewhere [OF False, of env c] show ?thesis
      by (auto simp add: flat lookup_tail list_all_iff)
  qed
qed

theorem upsert_follows_user_lookup_witness:
  "Upsert ''social_media_accounts''
      \<lparr>platform = ''twitter'', access_token = Some ''at'', refresh_token = Some ''rt'',
       expires_at = ''2023-11-14T23:13:20.000Z'', user_id = Some ''u1''\<rparr>
     \<in> set (flatten (handleAuth env_example [(''platform'', ''twitter''), (''code'', ''abc'')]))
   \<and> (\<exists>rest. handleAuth env_example [(''platform'', ''twitter''), (''code'', ''abc'')] =
         SetStatus ''Connecting twitter account...''
         # Fetch (twitter_request env_example ''abc'') # GetUser
         # Upsert ''social_media_accounts''
             \<lparr>platform = ''twitter'', access_token = Some ''at'', refresh_token = Some ''rt'',
              expires_at = ''2023-11-14T23:13:20.000Z'', user_id = Some ''u1''\<rparr>
         # rest)
   \<and> getUser env_example = Returned (Some ''u1'')
   \<and> GetUser \<in> set (flatten (handleAuth (env_example\<lparr>getUser := Returned None\<rparr>)
        [(''platform'', ''twitter''), (''code'', ''abc'')]))
   \<and> getUser (env_example\<lparr>getUser := Returned None\<rparr>) = Returned None
   \<and> (\<exists>row. Upsert ''social_media_accounts'' row
          \<in> set (handleAuth (env_example\<lparr>getUser := Returned None\<rparr>)
                [(''platform'', ''twitter''), (''code'', ''abc'')])
        \<and> user_id row = None)"
proof -
  have code: "get [(''platform'', ''twitter''), (''code'', ''abc'')] ''code'' = Some ''abc''"
    by (simp add: get_def)
  have stored: "Upsert ''social_media_accounts''
      \<lparr>platform = ''twitter'', access_token = Some ''at'', refresh_token = Some ''rt'',
       expires_at = ''2023-11-14T23:13:20.000Z'', user_id = Some ''u1''\<rparr>
     \<in> set (flatten (handleAuth env_example [(''platform'', ''twitter''), (''code'', ''abc'')]))"
    by code_simp
  have asked: "GetUser \<in> set (flatten (handleAuth (env_example\<lparr>getUser := Returned None\<rparr>)
        [(''platform'', ''twitter''), (''code'', ''abc'')]))"
    by code_simp
  have nobody: "getUser (env_example\<lparr>getUser := Returned None\<rparr>) = Returned None"
    by simp
  from upsert_follows_user_lookup
    [of "''social_media_accounts''"
        "\<lparr>platform = ''twitter'', access_token = Some ''at'', refresh_token = Some ''rt'',
          expires_at = ''2023-11-14T23:13:20.000Z'', user_id = Some ''u1''\<rparr>"
        env_example "[(''platform'', ''twitter''), (''code'', ''abc'')]"]
    stored
  have before: "(\<exists>rest. handleAuth env_example [(''platform'', ''twitter''), (''code'', ''abc'')] =
         SetStatus ''Connecting twitter account...''
         # Fetch (twitter_request env_example ''abc'') # GetUser
         # Upsert ''social_media_accounts''
             \<lparr>platform = ''twitter'', access_token = Some ''at'', refresh_token = Some ''rt'',
              expires_at = ''2023-11-14T23:13:20.000Z'', user_id = Some ''u1''\<rparr>
         # rest)
      \<and> getUser env_example = Returned (Some ''u1'')"
    by (simp add: code)
  from upsert_follows_user_lookup
    [of _ _ "env_example\<lparr>getUser := Returned None\<rparr>"
        "[(''platform'', ''twitter''), (''code'', ''abc'')]" None]
    asked nobody
  have after: "\<exists>row. Upsert ''social_media_accounts'' row
          \<in> set (handleAuth (env_example\<lparr>getUser := Returned None\<rparr>)
                [(''platform'', ''twitter''), (''code'', ''abc'')])
        \<and> user_id row = None"
    by blast
  from stored before asked nobody after show ?thesis
    by blast
qed

text \<open>
  C5 as stated fails when nobody is signed in: \<^verbatim>\<open>data.user?.id\<close> is \<^verbatim>\<open>undefined\<close>, the row is
  upserted with that \<^verbatim>\<open>user_id\<close>, and the run succeeds.
\<close>

theorem signed_out_user_is_stored_as_undefined:
  "getUser (env_example\<lparr>getUser := Returned None\<rparr>) = Returned None
   \<and> handleAuth (env_example\<lparr>getUser := Returned None\<rparr>)
        [(''platform'', ''twitter''), (''code'', ''abc'')] =
        [SetStatus ''Connecting twitter account...'',
         Fetch (twitter_request (env_example\<lparr>getUser := Returned None\<rparr>) ''abc''),
         GetUser,
         Upsert ''social_media_accounts''
           \<lparr>platform = ''twitter'', access_token = Some ''at'', refresh_token = Some ''rt'',
            expires_at = ''2023-11-14T23:13:20.000Z'', user_id = None\<rparr>,
         ConnectAccount ''twitter'',
         SetStatus ''Successfully connected!'',
         PostMessage (SOCIAL_AUTH_SUCCESS ''twitter'') ''https://app.example'',
         WindowClose]"
  by code_simp

text \<open>
  C6, as amended. No handler checks its client credentials. For every supported platform
  the token request is the first step after the status message, whatever the configuration;
  its body is made of the handler's parameters, and a credential that is not configured is
  sent in its field as the text \<^verbatim>\<open>undefined\<close>.
\<close>

theorem request_is_sent_without_credential_check:
  assumes "\<not> truthy (get searchParams ''error'')"
    and "get searchParams ''platform'' = Some p"
    and "p \<in> {''twitter'', ''linkedin'', ''facebook'', ''instagram''}"
    and "get searchParams ''code'' = Some code" and "code \<noteq> []"
  shows "(\<exists>rest. handleAuth env searchParams =
             SetStatus (''Connecting '' @ p @ '' account...'')
             # Fetch (token_request env p code) # rest)
    \<and> body (token_request env p code) =
        (if p = ''twitter'' then Text (toString (token_params env p code))
         else Params (token_params env p code))
    \<and> (\<forall>field. (field, None) \<in> set (credentials env p) \<longrightarrow>
          (field, ''undefined'') \<in> set (token_params env p code))"
proof -
  from assms(3) have "p \<noteq> []"
    by auto
  note run = handleAuth_valid(1) [OF assms(1,2) this assms(4,5), of env]
  from switch_starts_with_fetch [OF assms(3), of env code]
  have sent: "\<exists>rest. handleAuth env searchParams =
             SetStatus (''Connecting '' @ p @ '' account...'')
             # Fetch (token_request env p code) # rest"
    by (auto simp add: run)
  from assms(3) have carried: "body (token_request env p code) =
        (if p = ''twitter'' then Text (toString (token_params env p code))
         else Params (token_params env p code))"
    by (auto simp add: token_request_def token_params_def twitter_request_def
          linkedin_request_def facebook_request_def instagram_request_def)
  from assms(3) have "\<forall>field. (field, None) \<in> set (credentials env p) \<longrightarrow>
          (field, ''undefined'') \<in> set (token_params env p code)"
    by (auto simp add: credentials_def token_params_def twitter_params_def linkedin_params_def
          facebook_params_def instagram_params_def USVString_def)
  with sent carried show ?thesis
    by blast
qed

theorem request_is_sent_without_credential_check_witness:
  "(''client_secret'', None)
     \<in> set (credentials (env_example\<lparr>VITE_LINKEDIN_CLIENT_SECRET := None\<rparr>) ''linkedin'')
   \<and> (\<exists>rest. handleAuth (env_example\<lparr>VITE_LINKEDIN_CLIENT_SECRET := None\<rparr>)
          [(''platform'', ''linkedin''), (''code'', ''abc'')] =
        SetStatus ''Connecting linkedin account...''
        # Fetch (token_request (env_example\<lparr>VITE_LINKEDIN_CLIENT_SECRET := None\<rparr>)
            ''linkedin'' ''abc'')
        # rest)
   \<and> body (token_request (env_example\<lparr>VITE_LINKEDIN_CLIENT_SECRET := None\<rparr>)
        ''linkedin'' ''abc'')
       = Params (token_params (env_example\<lparr>VITE_LINKEDIN_CLIENT_SECRET := None\<rparr>)
           ''linkedin'' ''abc'')
   \<and> (''client_secret'', ''undefined'')
     \<in> set (token_params (env_example\<lparr>VITE_LINKEDIN_CLIENT_SECRET := None\<rparr>)
           ''linkedin'' ''abc'')"
proof -
  have no_error: "\<not> truthy (get [(''platform'', ''linkedin''), (''code'', ''abc'')] ''error'')"
    by (simp add: get_def)
  have linkedin:
    "get [(''platform'', ''linkedin''), (''code'', ''abc'')] ''platform'' = Some ''linkedin''"
    by (simp add: get_def)
  have supported: "''linkedin'' \<in> {''twitter'', ''linkedin'', ''facebook'', ''instagram''}"
    by simp
  have code: "get [(''platform'', ''linkedin''), (''code'', ''abc'')] ''code'' = Some ''abc''"
    by (simp add: get_def)
  have nonempty: "''abc'' \<noteq> []"
    by simp
  have absent: "(''client_secret'', None)
     \<in> set (credentials (env_example\<lparr>VITE_LINKEDIN_CLIENT_SECRET := None\<rparr>) ''linkedin'')"
    by (simp add: credentials_def)
  have other: "''linkedin'' \<noteq> ''twitter''"
    by simp
  note run = request_is_sent_without_credential_check
    [OF no_error linkedin supported code nonempty,
     of "env_example\<lparr>VITE_LINKEDIN_CLIENT_SECRET := None\<rparr>"]
  from run other have carried:
    "body (token_request (env_example\<lparr>VITE_LINKEDIN_CLIENT_SECRET := None\<rparr>)
        ''linkedin'' ''abc'')
       = Params (token_params (env_example\<lparr>VITE_LINKEDIN_CLIENT_SECRET := None\<rparr>)
           ''linkedin'' ''abc'')"
    by (simp only: if_False)
  from run have sent: "\<exists>rest. handleAuth (env_example\<lparr>VITE_LINKEDIN_CLIENT_SECRET := None\<rparr>)
          [(''platform'', ''linkedin''), (''code'', ''abc'')] =
        SetStatus ''Connecting linkedin account...''
        # Fetch (token_request (env_example\<lparr>VITE_LINKEDIN_CLIENT_SECRET := None\<rparr>)
            ''linkedin'' ''abc'')
        # rest"
    by simp
  from run absent have sent_undefined: "(''client_secret'', ''undefined'')
     \<in> set (token_params (env_example\<lparr>VITE_LINKEDIN_CLIENT_SECRET := None\<rparr>)
           ''linkedin'' ''abc'')"
    by blast
  from absent sent carried sent_undefined show ?thesis
    by blast
qed

text \<open>
  C6 as stated fails: with \<^verbatim>\<open>VITE_TWITTER_CLIENT_ID\<close> not configured, the request goes to the
  proxy with \<^verbatim>\<open>client_id=undefined\<close> in its body, and the run carries on.
\<close>

theorem missing_client_id_is_sent:
  "VITE_TWITTER_CLIENT_ID (env_example\<lparr>VITE_TWITTER_CLIENT_ID := None\<rparr>) = None
   \<and> filter is_Fetch
        (flatten (handleAuth (env_example\<lparr>VITE_TWITTER_CLIENT_ID := None\<rparr>)
           [(''platform'', ''twitter''), (''code'', ''abc'')])) =
        [Fetch
           \<lparr>url = ''https://api.socialsync.fun/twitter/token'',
            http_method = ''POST'',
            headers = [(''Content-Type'', ''application/x-www-form-urlencoded'')],
            body = Text ''code=abc&grant_type=authorization_code&redirect_uri=https%3A%2F%2Fapp.example%2Fauth%2Fcallback%3Fplatform%3Dtwitter&code_verifier=challenge&client_id=undefined''\<rparr>]
   \<and> filter is_SetError
        (handleAuth (env_example\<lparr>VITE_TWITTER_CLIENT_ID := None\<rparr>)
           [(''platform'', ''twitter''), (''code'', ''abc'')]) = []"
  by code_simp

text \<open>
  C7. In a twitter run whose token response parses to a JSON object carrying \<^verbatim>\<open>expires_in\<close>,
  every row that is stored has as its \<^verbatim>\<open>expires_at\<close> the ISO-8601 text of the instant
  \<^verbatim>\<open>expires_in\<close> seconds after the reading of \<^verbatim>\<open>Date.now()\<close> that the handler makes when it
  builds the row. Exactly one row is stored when the response is a success, the instant is
  one that a \<^verbatim>\<open>Date\<close> can hold and the lookup of the user returns; otherwise the handler throws
  before the \<^verbatim>\<open>upsert\<close>.
\<close>

theorem twitter_expiry_is_stored:
  assumes "\<not> truthy (get searchParams ''error'')"
    and "get searchParams ''platform'' = Some ''twitter''"
    and "get searchParams ''code'' = Some code" and "code \<noteq> []"
    and "fetch env (twitter_request env code) = Returned tokenResponse"
    and "json tokenResponse = Returned (JObject tokens)"
    and "expires_in tokens = Some seconds"
  shows "(\<forall>table row. Upsert table row \<in> set (flatten (handleAuth env searchParams)) \<longrightarrow>
            expires_at row = iso_string (Date_now env + seconds * 1000))
    \<and> (ok tokenResponse \<and> \<bar>Date_now env + seconds * 1000\<bar> \<le> 8640000000000000
         \<and> getUser env = Returned user \<longrightarrow>
         filter is_Upsert (flatten (handleAuth env searchParams)) =
           [Upsert ''social_media_accounts''
              \<lparr>platform = ''twitter'',
               access_token = tokens.access_token tokens,
               refresh_token = tokens.refresh_token tokens,
               expires_at = iso_string (Date_now env + seconds * 1000),
               user_id = user\<rparr>])"
proof -
  note run = twitter_run [OF assms(1-4), of env]
  have "expires_at row = iso_string (Date_now env + seconds * 1000)"
    if "Upsert table row \<in> set (flatten (handleAuth env searchParams))" for table row
  proof -
    from that have "Upsert table row \<in> set (fst (handleTwitterAuth env code))"
      by (simp add: run(2) lookup_tail)
    with assms(5-7) twitter_expiry show ?thesis
      by blast
  qed
  moreover have "filter is_Upsert (flatten (handleAuth env searchParams)) =
           [Upsert ''social_media_accounts''
              \<lparr>platform = ''twitter'',
               access_token = tokens.access_token tokens,
               refresh_token = tokens.refresh_token tokens,
               expires_at = iso_string (Date_now env + seconds * 1000),
               user_id = user\<rparr>]"
    if "ok tokenResponse" and "\<bar>Date_now env + seconds * 1000\<bar> \<le> 8640000000000000"
      and "getUser env = Returned user"
  proof -
    have date: "toISOString (RangeError_message env)
        (new_Date (map_option (\<lambda>n. Date_now env + n * 1000) (expires_in tokens)))
        = Returned (iso_string (Date_now env + seconds * 1000))"
      using assms(7) that(2) by (simp add: toISOString_def new_Date_def)
    show ?thesis
      using assms(5,6) that(1,3) date
      by (simp add: run(2) handleTwitterAuth_eq twitter_fail_def twitter_row_def
            flatten_failure_events flatten_simps success_events_def Let_def
          split: outcome.splits option.splits)
  qed
  ultimately show ?thesis
    by blast
qed

theorem twitter_expiry_is_stored_witness:
  "\<not> truthy (get [(''platform'', ''twitter''), (''code'', ''abc'')] ''error'')
   \<and> fetch env_example (twitter_request env_example ''abc'') = Returned token_response
   \<and> expires_in
        \<lparr>error_description = None, access_token = Some ''at'', refresh_token = Some ''rt'',
         expires_in = Some 3600\<rparr> = Some 3600
   \<and> \<bar>Date_now env_example + 3600 * 1000\<bar> \<le> 8640000000000000
   \<and> filter is_Upsert
        (flatten (handleAuth env_example [(''platform'', ''twitter''), (''code'', ''abc'')])) =
        [Upsert ''social_media_accounts''
           \<lparr>platform = ''twitter'', access_token = Some ''at'', refresh_token = Some ''rt'',
            expires_at = ''2023-11-14T23:13:20.000Z'', user_id = Some ''u1''\<rparr>]"
proof -
  have error: "\<not> truthy (get [(''platform'', ''twitter''), (''code'', ''abc'')] ''error'')"
    by (simp add: get_def)
  have twitter:
    "get [(''platform'', ''twitter''), (''code'', ''abc'')] ''platform'' = Some ''twitter''"
    by (simp add: get_def)
  have code: "get [(''platform'', ''twitter''), (''code'', ''abc'')] ''code'' = Some ''abc''"
    by (simp add: get_def)
  have nonempty: "''abc'' \<noteq> []"
    by simp
  have response: "fetch env_example (twitter_request env_example ''abc'') = Returned token_response"
    by (simp add: env_example_def twitter_request_def)
  have success: "ok token_response"
    by (simp add: token_response_def)
  have parsed: "json token_response = Returned (JObject
      \<lparr>error_description = None, access_token = Some ''at'', refresh_token = Some ''rt'',
       expires_in = Some 3600\<rparr>)"
    by (simp add: token_response_def)
  have seconds: "expires_in
      \<lparr>error_description = None, access_token = Some ''at'', refresh_token = Some ''rt'',
       expires_in = Some 3600\<rparr> = Some 3600"
    by simp
  have clock: "Date_now env_example = 1700000000000"
    by (simp add: env_example_def)
  have valid: "\<bar>Date_now env_example + 3600 * 1000\<bar> \<le> 8640000000000000"
    by (simp add: clock)
  have user: "getUser env_example = Returned (Some ''u1'')"
    by (simp add: env_example_def)
  have printed: "iso_string (1700000000000 + 3600 * 1000) = ''2023-11-14T23:13:20.000Z''"
    by code_simp
  from twitter_expiry_is_stored
    [OF error twitter code nonempty response parsed seconds, of "Some ''u1''"]
    success valid user
  have "filter is_Upsert
        (flatten (handleAuth env_example [(''platform'', ''twitter''), (''code'', ''abc'')])) =
        [Upsert ''social_media_accounts''
           \<lparr>platform = ''twitter'',
            access_token = tokens.access_token
              \<lparr>error_description = None, access_token = Some ''at'',
               refresh_token = Some ''rt'', expires_in = Some 3600\<rparr>,
            refresh_token = tokens.refresh_token
              \<lparr>error_description = None, access_token = Some ''at'',
               refresh_token = Some ''rt'', expires_in = Some 3600\<rparr>,
            expires_at = iso_string (Date_now env_example + 3600 * 1000),
            user_id = Some ''u1''\<rparr>]"
    by blast
  then have stored: "filter is_Upsert
        (flatten (handleAuth env_example [(''platform'', ''twitter''), (''code'', ''abc'')])) =
        [Upsert ''social_media_accounts''
           \<lparr>platform = ''twitter'', access_token = Some ''at'', refresh_token = Some ''rt'',
            expires_at = ''2023-11-14T23:13:20.000Z'', user_id = Some ''u1''\<rparr>]"
    by (simp only: clock printed tokens.simps)
  from error response seconds valid stored show ?thesis
    by blast
qed

text \<open>
  C8. A run whose query has no usable \<^verbatim>\<open>error\<close> (none, or an empty one) and lacks
  \<^verbatim>\<open>platform\<close> or \<^verbatim>\<open>code\<close> (missing or empty) throws \<^verbatim>\<open>Missing required parameters\<close>
  before it has made a single event: the run consists of the four steps of the \<^verbatim>\<open>catch\<close>
  block, and neither these nor the timer's callback call the network.
\<close>

theorem missing_parameters_fail_before_any_call:
  assumes "\<not> truthy (get searchParams ''error'')"
    and "\<not> truthy (get searchParams ''platform'') \<or> \<not> truthy (get searchParams ''code'')"
  shows "handleAuth_try env searchParams = ([], Threw ''Missing required parameters'')
    \<and> handleAuth env searchParams =
        [ConsoleError ''Auth callback error:'' (LogError ''Missing required parameters''),
         SetError ''Missing required parameters'',
         SetStatus ''Authentication failed'',
         SetTimeout
           (if opener env
            then [PostMessage (SOCIAL_AUTH_ERROR ''Missing required parameters'') (origin env),
                  WindowClose]
            else [Navigate ''/''])
           3000]
    \<and> filter network_call (flatten (handleAuth env searchParams)) = []"
proof -
  have thrown: "handleAuth_try env searchParams = ([], Threw ''Missing required parameters'')"
    using assms by (rule handleAuth_try_missing)
  then have run: "handleAuth env searchParams = failure_events env ''Missing required parameters''"
    by (simp add: handleAuth_eq)
  have "filter network_call (flatten (handleAuth env searchParams)) = []"
    by (simp add: run flatten_failure_events network_call_def)
  with thrown run show ?thesis
    by (simp add: failure_events_def)
qed

theorem missing_parameters_fail_before_any_call_witness:
  "\<not> truthy (get [(''platform'', ''twitter''), (''state'', ''xyz'')] ''error'')
   \<and> \<not> truthy (get [(''platform'', ''twitter''), (''state'', ''xyz'')] ''code'')
   \<and> handleAuth env_example [(''platform'', ''twitter''), (''state'', ''xyz'')] =
        [ConsoleError ''Auth callback error:'' (LogError ''Missing required parameters''),
         SetError ''Missing required parameters'',
         SetStatus ''Authentication failed'',
         SetTimeout
           [PostMessage (SOCIAL_AUTH_ERROR ''Missing required parameters'') ''https://app.example'',
            WindowClose]
           3000]
   \<and> filter network_call
        (flatten (handleAuth env_example [(''platform'', ''twitter''), (''state'', ''xyz'')])) = []"
proof -
  have error: "\<not> truthy (get [(''platform'', ''twitter''), (''state'', ''xyz'')] ''error'')"
    by (simp add: get_def)
  have code: "\<not> truthy (get [(''platform'', ''twitter''), (''state'', ''xyz'')] ''code'')"
    by (simp add: get_def)
  have window: "opener env_example" "origin env_example = ''https://app.example''"
    by (simp_all add: env_example_def)
  note run = missing_parameters_fail_before_any_call [OF error disjI2 [OF code], of env_example]
  have events: "handleAuth env_example [(''platform'', ''twitter''), (''state'', ''xyz'')] =
        [ConsoleError ''Auth callback error:'' (LogError ''Missing required parameters''),
         SetError ''Missing required parameters'',
         SetStatus ''Authentication failed'',
         SetTimeout
           [PostMessage (SOCIAL_AUTH_ERROR ''Missing required parameters'') ''https://app.example'',
            WindowClose]
           3000]"
    using run by (simp add: window)
  from error code events run show ?thesis
    by blast
qed

text \<open>
  C9. A run for any platform other than twitter makes no \<^verbatim>\<open>upsert\<close> and no \<^verbatim>\<open>getUser\<close> call,
  neither at once nor when a timer fires. When its \<^verbatim>\<open>try\<close> block completes, the run is: the
  status message, the token request, the \<^verbatim>\<open>connectAccount\<close> call with the platform, the
  success message, and the hand-over of the outcome.
\<close>

theorem only_twitter_persists:
  assumes "get searchParams ''platform'' = Some p" and "p \<noteq> ''twitter''"
  shows "filter is_Upsert (flatten (handleAuth env searchParams)) = []
    \<and> filter is_GetUser (flatten (handleAuth env searchParams)) = []
    \<and> (snd (handleAuth_try env searchParams) = Returned () \<longrightarrow>
         (\<exists>code. get searchParams ''code'' = Some code
            \<and> handleAuth env searchParams =
                [SetStatus (''Connecting '' @ p @ '' account...''),
                 Fetch (token_request env p code),
                 ConnectAccount p,
                 SetStatus ''Successfully connected!'']
                @ (if opener env
                   then [PostMessage (SOCIAL_AUTH_SUCCESS p) (origin env), WindowClose]
                   else [Navigate ''/''])))"
proof (cases searchParams rule: handleAuth_try_cases)
  case (error e)
  then have "handleAuth_try env searchParams = ([], Threw (''Authentication failed: '' @ e))"
    by (rule handleAuth_try_error)
  then show ?thesis
    by (simp add: handleAuth_eq flatten_failure_events)
next
  case missing
  then have "handleAuth_try env searchParams = ([], Threw ''Missing required parameters'')"
    by (rule handleAuth_try_missing)
  then show ?thesis
    by (simp add: handleAuth_eq flatten_failure_events)
next
  case (valid p' c)
  with assms have p: "p' = p"
    by simp
  note run = handleAuth_valid [OF valid [unfolded p], of env]
  have flat: "flatten (handleAuth env searchParams) =
     SetStatus (''Connecting '' @ p @ '' account...'')
     # fst (switch_platform env p c)
     @ flatten (case snd (switch_platform env p c) of
          Returned _ \<Rightarrow> success_events env p
        | Threw m \<Rightarrow> failure_events env m)"
    by (simp add: run(1) flatten_run handler_event_switch)
  have calls: "filter is_Upsert (flatten (handleAuth env searchParams)) = []
    \<and> filter is_GetUser (flatten (handleAuth env searchParams)) = []"
    using no_persistence_elsewhere [OF assms(2), of env c]
    by (simp add: flat flatten_failure_events flatten_simps success_events_def
          list_all_iff filter_empty_conv
        split: outcome.splits)
  have "\<exists>code. get searchParams ''code'' = Some code
            \<and> handleAuth env searchParams =
                [SetStatus (''Connecting '' @ p @ '' account...''),
                 Fetch (token_request env p code),
                 ConnectAccount p,
                 SetStatus ''Successfully connected!'']
                @ (if opener env
                   then [PostMessage (SOCIAL_AUTH_SUCCESS p) (origin env), WindowClose]
                   else [Navigate ''/''])"
    if completed: "snd (handleAuth_try env searchParams) = Returned ()"
  proof (cases "p \<in> {''linkedin'', ''facebook'', ''instagram''}")
    case True
    then show ?thesis
    proof (cases rule: switch_other_cases [where env = env and c = c])
      case (connected r j)
      with completed run(2) have "connectAccount env p = Returned ()"
        by simp
      with connected valid(4) show ?thesis
        by (simp add: run(1) success_events_def)
    qed (use completed run(2) in simp_all)
  next
    case False
    with assms(2) completed run(2) show ?thesis
      by (simp add: switch_unsupported)
  qed
  with calls show ?thesis
    by blast
qed

theorem only_twitter_persists_witness:
  "get [(''platform'', ''linkedin''), (''code'', ''abc'')] ''platform'' = Some ''linkedin''
   \<and> ''linkedin'' \<noteq> ''twitter''
   \<and> filter is_Upsert
        (flatten (handleAuth env_example [(''platform'', ''linkedin''), (''code'', ''abc'')])) = []
   \<and> snd (handleAuth_try env_example [(''platform'', ''linkedin''), (''code'', ''abc'')])
       = Returned ()
   \<and> handleAuth env_example [(''platform'', ''linkedin''), (''code'', ''abc'')] =
        [SetStatus ''Connecting linkedin account...'',
         Fetch (token_request env_example ''linkedin'' ''abc''),
         ConnectAccount ''linkedin'',
         SetStatus ''Successfully connected!'',
         PostMessage (SOCIAL_AUTH_SUCCESS ''linkedin'') ''https://app.example'',
         WindowClose]"
proof -
  have linkedin:
    "get [(''platform'', ''linkedin''), (''code'', ''abc'')] ''platform'' = Some ''linkedin''"
    by (simp add: get_def)
  have other: "''linkedin'' \<noteq> ''twitter''"
    by simp
  have code: "get [(''platform'', ''linkedin''), (''code'', ''abc'')] ''code'' = Some ''abc''"
    by (simp add: get_def)
  have window: "opener env_example" "origin env_example = ''https://app.example''"
    by (simp_all add: env_example_def)
  have succeeds:
    "snd (handleAuth_try env_example [(''platform'', ''linkedin''), (''code'', ''abc'')])
       = Returned ()"
    by code_simp
  note run = only_twitter_persists [OF linkedin other, of env_example]
  from run have events: "handleAuth env_example [(''platform'', ''linkedin''), (''code'', ''abc'')] =
        [SetStatus ''Connecting linkedin account...'',
         Fetch (token_request env_example ''linkedin'' ''abc''),
         ConnectAccount ''linkedin'',
         SetStatus ''Successfully connected!'',
         PostMessage (SOCIAL_AUTH_SUCCESS ''linkedin'') ''https://app.example'',
         WindowClose]"
    by (simp add: succeeds code window)
  from linkedin other run succeeds events show ?thesis
    by blast
qed

text \<open>
  C10. Two queries that agree on every parameter but \<^verbatim>\<open>state\<close> give the same run in the same
  surroundings: the same events with the same arguments, in the same order.
\<close>

theorem state_parameter_is_ignored:
  assumes "\<forall>name. name \<noteq> ''state'' \<longrightarrow> get searchParams name = get searchParams' name"
  shows "handleAuth env searchParams = handleAuth env searchParams'"
proof -
  have "get searchParams ''platform'' = get searchParams' ''platform''"
    and "get searchParams ''code'' = get searchParams' ''code''"
    and "get searchParams ''error'' = get searchParams' ''error''"
    using assms by simp_all
  then have "handleAuth_try env searchParams = handleAuth_try env searchParams'"
    by (simp add: handleAuth_try_def)
  then show ?thesis
    by (simp add: handleAuth_def)
qed

theorem state_parameter_is_ignored_witness:
  "get [(''platform'', ''twitter''), (''code'', ''abc''), (''state'', ''expected'')] ''state''
     = Some ''expected''
   \<and> get [(''platform'', ''twitter''), (''code'', ''abc''), (''state'', ''forged'')] ''state''
     = Some ''forged''
   \<and> handleAuth env_example
        [(''platform'', ''twitter''), (''code'', ''abc''), (''state'', ''expected'')]
      = handleAuth env_example
        [(''platform'', ''twitter''), (''code'', ''abc''), (''state'', ''forged'')]"
proof -
  have same: "\<forall>name. name \<noteq> ''state'' \<longrightarrow>
      get [(''platform'', ''twitter''), (''code'', ''abc''), (''state'', ''expected'')] name
      = get [(''platform'', ''twitter''), (''code'', ''abc''), (''state'', ''forged'')] name"
    by (simp add: get_def)
  have expected:
    "get [(''platform'', ''twitter''), (''code'', ''abc''), (''state'', ''expected'')] ''state''
       = Some ''expected''"
    by (simp add: get_def)
  have forged:
    "get [(''platform'', ''twitter''), (''code'', ''abc''), (''state'', ''forged'')] ''state''
       = Some ''forged''"
    by (simp add: get_def)
  from expected forged state_parameter_is_ignored [OF same, of env_example] show ?thesis
    by blast
qed

end
